theory Spec2Isabelle
  imports Main
begin

section \<open>Strings\<close>

text \<open>
  JavaScript strings are modelled as \<open>string\<close> (lists of 8-bit characters). The
  pictographs that some log messages of the source start with are left out of the
  literals; everything else is spelled as in the source.
\<close>

definition startsWith :: "string \<Rightarrow> string \<Rightarrow> bool" where
  \<comment> \<open>\<open>hay.startsWith(needle)\<close>\<close>
  "startsWith hay needle = (take (length needle) hay = needle)"

fun stringIncludes :: "string \<Rightarrow> string \<Rightarrow> bool" where
  \<comment> \<open>\<open>hay.includes(needle)\<close>\<close>
  "stringIncludes [] needle = (needle = [])"
| "stringIncludes (c # cs) needle = (startsWith (c # cs) needle \<or> stringIncludes cs needle)"

definition lowerChar :: "char \<Rightarrow> char" where
  "lowerChar c =
     (case map_of (zip ''ABCDEFGHIJKLMNOPQRSTUVWXYZ'' ''abcdefghijklmnopqrstuvwxyz'') c of
        None \<Rightarrow> c | Some l \<Rightarrow> l)"

definition toLowerCase :: "string \<Rightarrow> string" where
  \<comment> \<open>\<open>s.toLowerCase()\<close> on ASCII text\<close>
  "toLowerCase s = map lowerChar s"

definition isSpace :: "char \<Rightarrow> bool" where
  \<comment> \<open>the ASCII white space and line terminators that \<open>trim\<close> removes\<close>
  "isSpace c = (c \<in> set [CHR 0x09, CHR 0x0A, CHR 0x0B, CHR 0x0C, CHR 0x0D, CHR 0x20])"

definition trim :: "string \<Rightarrow> string" where
  \<comment> \<open>\<open>s.trim()\<close>\<close>
  "trim s = rev (dropWhile isSpace (rev (dropWhile isSpace s)))"

definition substring0 :: "nat \<Rightarrow> string \<Rightarrow> string" where
  \<comment> \<open>\<open>s.substring(0, n)\<close>\<close>
  "substring0 n s = take n s"

definition isDigit :: "char \<Rightarrow> bool" where
  \<comment> \<open>the regular expression class \<open>\d\<close>\<close>
  "isDigit c = (c \<in> set ''0123456789'')"

definition digitChar :: "nat \<Rightarrow> char" where
  "digitChar n = ''0123456789'' ! (n mod 10)"

fun showNat :: "nat \<Rightarrow> string" where
  \<comment> \<open>a number interpolated into a template string\<close>
  "showNat n = (if n < 10 then [digitChar n] else showNat (n div 10) @ [digitChar n])"

declare showNat.simps [simp del]

definition truthy :: "string \<Rightarrow> bool" where
  \<comment> \<open>a string used as a condition: the empty string is falsy\<close>
  "truthy s = (s \<noteq> [])"

section \<open>Errors, the page driver and the process state\<close>

text \<open>
  An \<open>Error\<close> object is identified by its message. The browser automation library is
  not part of the repository: it is a parameter of every operation, the record
  \<open>driver\<close> over an arbitrary type \<open>'w\<close> of browser states. Commands (\<open>perform\<close>) and
  the passing of time (\<open>elapse\<close>) change the browser state; queries read it. A
  command or a query may fail with an error, as the awaited promise may reject.

  \<^item> \<open>queryOne\<close>, \<open>queryAll\<close>, \<open>queryXPath\<close> are \<open>page.$\<close>, \<open>page.$$\<close>, \<open>page.$x\<close>;
  \<^item> \<open>evalText\<close> is \<open>page.$eval(selector, el => el.textContent)\<close>;
  \<^item> \<open>property e a\<close> is \<open>e.evaluate(el => el.a)\<close> and \<open>maxLength e\<close> is
    \<open>e.evaluate(el => el.maxLength)\<close>;
  \<^item> a function passed to \<open>page.evaluate\<close> runs inside the page: \<open>evaluateError\<close> is
    the error of the call, if it fails; \<open>docHas sel\<close> is
    \<open>document.querySelector(sel) !== null\<close> and \<open>docOuterHTML sel\<close> the \<open>outerHTML\<close> of
    that element;
  \<^item> \<open>now\<close> is \<open>Date.now()\<close> and \<open>isoTime\<close> is \<open>new Date().toISOString()\<close>.

  Numbers that come from the configuration are integers; counters and lengths are
  natural numbers.
\<close>

datatype error = Error (message: string)

type_synonym selector = string
type_synonym elem = nat

datatype waitFor = Attached | Visible | Hidden

datatype attr = TextContent | TagName | ClassName | TypeAttr | IdAttr | NameAttr | Placeholder | AriaLabel

datatype action =
    Launch bool
  | NewPage
  | SetUserAgent string
  | SetViewport int int
  | Goto string
  | WaitForLoadState string
  | WaitForSelector selector waitFor int
  | Click selector
  | Focus selector
  | Clear selector
  | Type selector string
  | Select selector string
  | ElemClick elem int
  | ElemFocus elem
  | ElemType elem string
  | EvalClick elem
  | Screenshot string bool
  | CloseBrowser

record 'w driver =
  perform :: "action \<Rightarrow> 'w \<Rightarrow> (error + unit) \<times> 'w"
  elapse :: "int \<Rightarrow> 'w \<Rightarrow> 'w"
  queryOne :: "selector \<Rightarrow> 'w \<Rightarrow> error + elem option"
  queryAll :: "selector \<Rightarrow> 'w \<Rightarrow> error + elem list"
  queryXPath :: "string \<Rightarrow> 'w \<Rightarrow> error + elem list"
  evalText :: "selector \<Rightarrow> 'w \<Rightarrow> error + string"
  evaluateError :: "'w \<Rightarrow> error option"
  docHas :: "selector \<Rightarrow> 'w \<Rightarrow> bool"
  docOuterHTML :: "selector \<Rightarrow> 'w \<Rightarrow> string option"
  property :: "elem \<Rightarrow> attr \<Rightarrow> 'w \<Rightarrow> error + string"
  maxLength :: "elem \<Rightarrow> 'w \<Rightarrow> error + int"
  now :: "'w \<Rightarrow> nat"
  isoTime :: "'w \<Rightarrow> string"

datatype level = Step | Success | Warning | Failure | Completion | Info

datatype event = Log level string | Act action bool | Delay int

text \<open>
  The state of the process: the browser, the trace of what the program has done so far
  (log lines, driver commands with their outcome, delays), the fields of the
  \<open>BuntzenLakeBot\<close> instance (\<open>browser\<close> and \<open>page\<close> record whether the field is set)
  and the \<open>isRunning\<close> field of the \<open>BotScheduler\<close>.
\<close>

record 'w state =
  world :: 'w
  trace :: "event list"
  browser :: bool
  page :: bool
  isLoggedIn :: bool
  vehicleAdded :: bool
  isRunning :: bool

type_synonym ('w, 'a) prog = "'w state \<Rightarrow> (error + 'a) \<times> 'w state"

definition return :: "'a \<Rightarrow> ('w, 'a) prog" where
  "return x s = (Inr x, s)"

definition throw :: "error \<Rightarrow> ('w, 'a) prog" where
  "throw e s = (Inl e, s)"

definition andThen :: "('w, 'a) prog \<Rightarrow> ('a \<Rightarrow> ('w, 'b) prog) \<Rightarrow> ('w, 'b) prog" where
  \<comment> \<open>\<open>const x = await m; f(x)\<close>: an error of \<open>m\<close> skips \<open>f\<close>\<close>
  "andThen m f s = (case m s of (Inl e, s') \<Rightarrow> (Inl e, s') | (Inr x, s') \<Rightarrow> f x s')"

definition thenDo :: "('w, 'a) prog \<Rightarrow> ('w, 'b) prog \<Rightarrow> ('w, 'b) prog" where
  \<comment> \<open>\<open>await m; n\<close>\<close>
  "thenDo m n = andThen m (\<lambda>_. n)"

definition tryCatch :: "('w, 'a) prog \<Rightarrow> (error \<Rightarrow> ('w, 'a) prog) \<Rightarrow> ('w, 'a) prog" where
  \<comment> \<open>\<open>try { m } catch (error) { h(error) }\<close>\<close>
  "tryCatch m h s = (case m s of (Inl e, s') \<Rightarrow> h e s' | (Inr x, s') \<Rightarrow> (Inr x, s'))"

definition tryFinally :: "('w, 'a) prog \<Rightarrow> ('w, unit) prog \<Rightarrow> ('w, 'a) prog" where
  \<comment> \<open>\<open>try { m } finally { fin }\<close>: an error of \<open>fin\<close> replaces the outcome of \<open>m\<close>\<close>
  "tryFinally m fin s =
     (case m s of (r, s') \<Rightarrow> (case fin s' of (Inl e, s'') \<Rightarrow> (Inl e, s'') | (Inr _, s'') \<Rightarrow> (r, s'')))"

definition whenDo :: "bool \<Rightarrow> ('w, unit) prog \<Rightarrow> ('w, unit) prog" where
  \<comment> \<open>\<open>if (b) { m }\<close>\<close>
  "whenDo b m = (if b then m else return ())"

definition emit :: "event \<Rightarrow> 'w state \<Rightarrow> 'w state" where
  "emit e s = s\<lparr>trace := trace s @ [e]\<rparr>"

definition command :: "'w driver \<Rightarrow> action \<Rightarrow> ('w, unit) prog" where
  \<comment> \<open>an awaited driver command, recorded in the trace with its outcome\<close>
  "command d a s =
     (case perform d a (world s) of
        (Inl e, w) \<Rightarrow> (Inl e, emit (Act a False) (s\<lparr>world := w\<rparr>))
      | (Inr _, w) \<Rightarrow> (Inr (), emit (Act a True) (s\<lparr>world := w\<rparr>)))"

definition query :: "('w \<Rightarrow> error + 'a) \<Rightarrow> ('w, 'a) prog" where
  \<comment> \<open>an awaited driver query\<close>
  "query q s = (q (world s), s)"

definition getState :: "('w state \<Rightarrow> 'a) \<Rightarrow> ('w, 'a) prog" where
  "getState f s = (Inr (f s), s)"

definition modify :: "('w state \<Rightarrow> 'w state) \<Rightarrow> ('w, unit) prog" where
  "modify f s = (Inr (), f s)"

section \<open>logger.js\<close>

definition logSuccess :: "string \<Rightarrow> ('w, unit) prog" where
  "logSuccess msg = modify (emit (Log Success msg))"

definition logWarning :: "string \<Rightarrow> ('w, unit) prog" where
  "logWarning msg = modify (emit (Log Warning msg))"

definition logError :: "string \<Rightarrow> error option \<Rightarrow> ('w, unit) prog" where
  "logError msg err =
     (case err of
        Some e \<Rightarrow> modify (emit (Log Failure (msg @ '': '' @ message e)))
      | None \<Rightarrow> modify (emit (Log Failure msg)))"

definition logStep :: "string \<Rightarrow> ('w, unit) prog" where
  "logStep step = modify (emit (Log Step step))"

definition logCompletion :: "string \<Rightarrow> ('w, unit) prog" where
  "logCompletion step = modify (emit (Log Completion step))"

definition logInfo :: "string \<Rightarrow> ('w, unit) prog" where
  "logInfo msg = modify (emit (Log Info msg))"

section \<open>utils.js\<close>

definition delay :: "'w driver \<Rightarrow> int \<Rightarrow> ('w, unit) prog" where
  \<comment> \<open>\<open>await delay(ms)\<close>: time passes in the browser\<close>
  "delay d ms = modify (\<lambda>s. emit (Delay ms) (s\<lparr>world := elapse d ms (world s)\<rparr>))"

definition waitForElementVisible :: "'w driver \<Rightarrow> selector \<Rightarrow> ('w, elem option) prog" where
  \<comment> \<open>the default \<open>timeout = 10000\<close>\<close>
  "waitForElementVisible d sel =
     tryCatch
       (thenDo (command d (WaitForSelector sel Visible 10000)) (query (queryOne d sel)))
       (\<lambda>error. throw (Error (''Element not visible: '' @ sel)))"

definition clickAttempt :: "'w driver \<Rightarrow> selector \<Rightarrow> ('w, bool) prog" where
  \<comment> \<open>the \<open>try\<close> block of \<open>clickElement\<close>: one attempt\<close>
  "clickAttempt d sel =
     thenDo (waitForElementVisible d sel)
    (thenDo (command d (Click sel))
    (thenDo (logSuccess (''Clicked element: '' @ sel))
            (return True)))"

function clickElementFrom :: "'w driver \<Rightarrow> selector \<Rightarrow> nat \<Rightarrow> nat \<Rightarrow> ('w, bool) prog" where
  \<comment> \<open>the \<open>for\<close> loop of \<open>clickElement\<close>, from the given value of \<open>attempt\<close>\<close>
  "clickElementFrom d sel maxRetries attempt s =
     (if attempt \<le> maxRetries then
        tryCatch
          (clickAttempt d sel)
          (\<lambda>error.
             thenDo (logWarning (''Click attempt '' @ showNat attempt @ '' failed for '' @ sel
                                 @ '': '' @ message error))
               (if attempt = maxRetries then throw error
                else thenDo (delay d 1000) (clickElementFrom d sel maxRetries (attempt + 1))))
          s
      else return False s)"
  by pat_completeness auto
termination
  by (relation "measure (\<lambda>(d, sel, maxRetries, attempt, s). maxRetries + 1 - attempt)") auto

declare clickElementFrom.simps [simp del]

definition clickElement :: "'w driver \<Rightarrow> selector \<Rightarrow> nat \<Rightarrow> ('w, bool) prog" where
  \<comment> \<open>\<open>maxRetries = 3\<close> is the default; every caller in the repository relies on it\<close>
  "clickElement d sel maxRetries = clickElementFrom d sel maxRetries 1"

definition fillInput :: "'w driver \<Rightarrow> selector \<Rightarrow> string \<Rightarrow> ('w, bool) prog" where
  "fillInput d sel text =
     tryCatch
       (thenDo (waitForElementVisible d sel)
       (thenDo (command d (Focus sel))
       (thenDo (command d (Clear sel))
       (thenDo (command d (Type sel text))
       (thenDo (logSuccess (''Filled input '' @ sel @ '' with: '' @ text))
               (return True))))))
       (\<lambda>error.
          thenDo (logError (''Failed to fill input '' @ sel @ '': '' @ message error) None)
                 (return False))"

definition selectOption :: "'w driver \<Rightarrow> selector \<Rightarrow> string \<Rightarrow> ('w, bool) prog" where
  "selectOption d sel v =
     tryCatch
       (thenDo (waitForElementVisible d sel)
       (thenDo (command d (Select sel v))
       (thenDo (logSuccess (''Selected option '' @ v @ '' from '' @ sel))
               (return True))))
       (\<lambda>error.
          thenDo (logError (''Failed to select option from '' @ sel @ '': '' @ message error) None)
                 (return False))"

definition elementExists :: "'w driver \<Rightarrow> selector \<Rightarrow> ('w, bool) prog" where
  "elementExists d sel =
     tryCatch
       (andThen (query (queryOne d sel)) (\<lambda>element. return (element \<noteq> None)))
       (\<lambda>error. return False)"

definition waitForPageLoad :: "'w driver \<Rightarrow> ('w, unit) prog" where
  "waitForPageLoad d =
     tryCatch
       (thenDo (command d (WaitForLoadState ''networkidle'')) (delay d 1000))
       (\<lambda>error. logWarning ''Page load wait failed, continuing anyway'')"

definition takeScreenshot :: "'w driver \<Rightarrow> string \<Rightarrow> ('w, string option) prog" where
  "takeScreenshot d filename =
     tryCatch
       (andThen (getState (\<lambda>s. map (\<lambda>c. if c = CHR '':'' \<or> c = CHR ''.'' then CHR ''-'' else c)
                                    (isoTime d (world s))))
          (\<lambda>timestamp.
             let filepath = ''screenshots/'' @ filename @ ''_'' @ timestamp @ ''.png'' in
             thenDo (command d (Screenshot filepath True))
            (thenDo (logSuccess (''Screenshot saved: '' @ filepath))
                    (return (Some filepath)))))
       (\<lambda>error.
          thenDo (logError (''Failed to take screenshot: '' @ message error) None)
                 (return None))"

section \<open>config.js\<close>

text \<open>
  The configuration is read from the process environment. \<open>parseInt\<close> is applied by the
  reader of the environment: a numeric variable is \<open>None\<close> when it is unset or not a
  number.
\<close>

record environment =
  LICENSE_PLATE :: "string option"
  PROVINCE :: "string option"
  VEHICLE_COLOR :: "string option"
  VEHICLE_MAKE :: "string option"
  VEHICLE_MODEL :: "string option"
  PASS_TYPE :: "string option"
  PREFERRED_DATE :: "string option"
  HEADLESS :: "string option"
  DELAY_BETWEEN_ACTIONS :: "int option"

record selectorTable =
  infoPopup :: selector
  dateSelector :: selector
  activeDate :: selector
  dateMain :: selector
  addToCartBtn :: selector
  otpSubmitBtn :: selector
  addVehicleBtn :: selector
  licensePlateInput :: selector
  provinceSelect :: selector
  colorSelect :: selector
  makeSelect :: selector
  modelInput :: selector
  saveVehicleBtn :: selector
  checkoutBtn :: selector
  soldOut :: selector

record config =
  phoneNumber :: string
  licensePlate :: string
  province :: string
  vehicleColor :: string
  vehicleMake :: string
  vehicleModel :: string
  passType :: string
  preferredDate :: string
  headless :: bool
  delayBetweenActions :: int
  baseUrl :: string
  selectors :: selectorTable

definition orElse :: "string option \<Rightarrow> string \<Rightarrow> string" where
  \<comment> \<open>\<open>process.env.X || dflt\<close>: an unset or empty variable gives the default\<close>
  "orElse v dflt = (case v of None \<Rightarrow> dflt | Some x \<Rightarrow> if truthy x then x else dflt)"

definition orElseInt :: "int option \<Rightarrow> int \<Rightarrow> int" where
  \<comment> \<open>\<open>parseInt(process.env.X) || dflt\<close>: \<open>NaN\<close> and \<open>0\<close> give the default\<close>
  "orElseInt v dflt = (case v of None \<Rightarrow> dflt | Some n \<Rightarrow> if n \<noteq> 0 then n else dflt)"

definition configSelectors :: selectorTable where
  \<comment> \<open>the entries of \<open>config.selectors\<close> that \<open>bot.js\<close> reads\<close>
  \<open>configSelectors =
     \<lparr> infoPopup = ''#informationPopup'',
       dateSelector = ''button.date'',
       activeDate = ''button.date.active'',
       dateMain = ''.dateMain'',
       addToCartBtn = ''.themeBtn.btn-disbled.button.button-round, #cardBtn_12196'',
       otpSubmitBtn = ''.themeBtn.btn-disbled.button'',
       addVehicleBtn = ''input[value="new_vehicle"]'',
       licensePlateInput = ''#licencePlateTxt'',
       provinceSelect = ''#stateSelect select'',
       colorSelect = ''#colourSelect select'',
       makeSelect = ''#makeModelSelect select'',
       modelInput = ''#vehicleModelTxt'',
       saveVehicleBtn = ''.themeBtn.button.button-round'',
       checkoutBtn = ''#checkOutButton'',
       soldOut = ''.soldout'' \<rparr>\<close>

definition loadConfig :: "environment \<Rightarrow> config" where
  \<comment> \<open>the fields of the object exported by \<open>config.js\<close> that \<open>bot.js\<close> reads\<close>
  "loadConfig env =
     \<lparr> phoneNumber = ''6043679066'',
       licensePlate = orElse (LICENSE_PLATE env) [],
       province = orElse (PROVINCE env) ''BC'',
       vehicleColor = orElse (VEHICLE_COLOR env) ''BLACK'',
       vehicleMake = orElse (VEHICLE_MAKE env) ''Tesla'',
       vehicleModel = orElse (VEHICLE_MODEL env) ''Y'',
       passType = orElse (PASS_TYPE env) ''all_day'',
       preferredDate = orElse (PREFERRED_DATE env) ''17'',
       headless = (HEADLESS env = Some ''true''),
       delayBetweenActions = orElseInt (DELAY_BETWEEN_ACTIONS env) 100,
       baseUrl = ''https://yodelportal.com/buntzen-lake'',
       selectors = configSelectors \<rparr>"

section \<open>bot.js\<close>

text \<open>
  Each method of \<open>BuntzenLakeBot\<close> is a program over the process state. A \<open>for\<close> loop
  over an array is a recursive function over the list; it returns the value of the
  flag that the loop sets before \<open>break\<close>. Code after an unconditional \<open>return\<close> is
  not translated.
\<close>

definition trimmedText :: "'w driver \<Rightarrow> elem \<Rightarrow> ('w, string) prog" where
  \<comment> \<open>\<open>await e.evaluate((el) => el.textContent.trim())\<close>\<close>
  "trimmedText d e = andThen (query (property d e TextContent)) (\<lambda>t. return (trim t))"

definition initialize :: "'w driver \<Rightarrow> config \<Rightarrow> ('w, bool) prog" where
  \<comment> \<open>\<open>Launch\<close> stands for \<open>puppeteer.launch\<close> with its fixed viewport and arguments\<close>
  "initialize d cfg =
     tryCatch
       (thenDo (logStep ''Initializing bot'')
       (thenDo (command d (Launch (headless cfg)))
       (thenDo (modify (\<lambda>s. s\<lparr>browser := True\<rparr>))
       (thenDo (command d NewPage)
       (thenDo (modify (\<lambda>s. s\<lparr>page := True\<rparr>))
       (thenDo (command d (SetUserAgent
          ''Mozilla/5.0 (Windows NT 10.0; Win64; x64) AppleWebKit/537.36 (KHTML, like Gecko) Chrome/91.0.4472.124 Safari/537.36''))
       (thenDo (command d (SetViewport 1366 768))
       (thenDo (logSuccess ''Bot initialized successfully'')
               (return True)))))))))
       (\<lambda>error. thenDo (logError ''Failed to initialize bot'' (Some error)) (throw error))"

definition navigateToPortal :: "'w driver \<Rightarrow> config \<Rightarrow> ('w, bool) prog" where
  "navigateToPortal d cfg =
     tryCatch
       (thenDo (logStep ''Navigating to Buntzen Lake portal'')
       (thenDo (command d (Goto (baseUrl cfg)))
       (thenDo (waitForPageLoad d)
       (thenDo (logSuccess ''Successfully navigated to portal'')
       (thenDo (takeScreenshot d ''portal_loaded'')
               (return True))))))
       (\<lambda>error. thenDo (logError ''Failed to navigate to portal'' (Some error)) (throw error))"

subsection \<open>handleInfoPopup\<close>

definition popupXPathClick :: "'w driver \<Rightarrow> ('w, bool) prog" where
  \<open>popupXPathClick d =
     tryCatch
       (andThen (query (queryXPath d ''//a[contains(text(), 'Go To Pass')]'')) (\<lambda>xpathButton.
          case xpathButton of
            [] \<Rightarrow> return False
          | b # _ \<Rightarrow>
              thenDo (command d (ElemClick b 1))
             (thenDo (logSuccess ''Clicked 'Go To Pass(es)' button using XPath'')
                     (return True))))
       (\<lambda>error. thenDo (logWarning (''XPath search failed: '' @ message error)) (return False))\<close>

definition buttonSelectors :: "selector list" where
  \<open>buttonSelectors =
     [''a.themeBtn.button.popup-close'',
      ''.themeBtn.button.popup-close'',
      ''a[href='#']'',
      ''a.themeBtn.button'',
      ''.themeBtn.button'',
      ''.popup-close'',
      ''a.popup-close'']\<close>

primrec popupSelectorLoop :: "'w driver \<Rightarrow> selector list \<Rightarrow> ('w, bool) prog" where
  "popupSelectorLoop d [] = return False"
| \<open>popupSelectorLoop d (sel # rest) =
     andThen
       (tryCatch
          (andThen (elementExists d sel) (\<lambda>ex.
             if ex then
               andThen (query (queryOne d sel)) (\<lambda>element.
               andThen (case element of
                          None \<Rightarrow> throw (Error ''Cannot read properties of null (reading evaluate)'')
                        | Some el \<Rightarrow> query (property d el TextContent)) (\<lambda>text.
                 if stringIncludes text ''Go To Pass'' then
                   thenDo (clickElement d sel 3)
                  (thenDo (logSuccess (''Clicked button using selector: '' @ sel))
                          (return True))
                 else
                   thenDo (logInfo (''Selector '' @ sel @ '' found element with text: "'' @ text @ ''"''))
                          (return False)))
             else return False))
          (\<lambda>error.
             thenDo (logWarning (''Selector '' @ sel @ '' failed: '' @ message error))
                    (return False)))
       (\<lambda>buttonClicked. if buttonClicked then return True else popupSelectorLoop d rest)\<close>

primrec popupElementLoop :: "'w driver \<Rightarrow> elem list \<Rightarrow> ('w, bool) prog" where
  "popupElementLoop d [] = return False"
| \<open>popupElementLoop d (element # rest) =
     andThen
       (tryCatch
          (andThen (query (property d element TextContent)) (\<lambda>text.
           andThen (query (property d element TagName)) (\<lambda>tagName.
           andThen (query (property d element ClassName)) (\<lambda>className.
           thenDo (logInfo (''Element: '' @ tagName @ ''.'' @ className @ '' - "'' @ text @ ''"''))
             (if stringIncludes text ''Go To Pass''
                 \<or> stringIncludes text ''Go To Pass(es)''
                 \<or> (stringIncludes text ''Pass'' \<and> stringIncludes text ''Go'') then
                thenDo (command d (ElemClick element 1))
               (thenDo (logSuccess (''Clicked button by text content: "'' @ text @ ''"''))
                       (return True))
              else return False)))))
          (\<lambda>error. return False))
       (\<lambda>buttonClicked. if buttonClicked then return True else popupElementLoop d rest)\<close>

definition handleInfoPopup :: "'w driver \<Rightarrow> config \<Rightarrow> ('w, bool) prog" where
  \<open>handleInfoPopup d cfg =
     tryCatch
       (thenDo (logStep ''Handling information popup'')
       (andThen (elementExists d (infoPopup (selectors cfg))) (\<lambda>popupExists.
       thenDo
         (if popupExists then
            thenDo (logStep ''Info popup found, looking for "Go To Pass(es)" button'')
           (thenDo (takeScreenshot d ''info_popup'')
           (andThen (query (evalText d (infoPopup (selectors cfg)))) (\<lambda>popupText.
            thenDo (logInfo (''Popup content: '' @ substring0 200 popupText @ ''...''))
           (andThen (popupXPathClick d) (\<lambda>clicked1.
            andThen (if \<not> clicked1 then popupSelectorLoop d buttonSelectors else return clicked1)
              (\<lambda>clicked2.
            andThen
              (if \<not> clicked2 then
                 andThen (query (queryAll d ''a, button, .themeBtn'')) (\<lambda>elements.
                 thenDo (logInfo (''Found '' @ showNat (length elements)
                                    @ '' potential clickable elements''))
                        (popupElementLoop d elements))
               else return clicked2)
              (\<lambda>buttonClicked.
                 if buttonClicked then delay d (delayBetweenActions cfg)
                 else logWarning ''Could not find "Go To Pass(es)" button, continuing anyway'')))))))
          else logStep ''No info popup found, continuing'')
       (thenDo (logCompletion ''Info popup handled'')
               (return True)))))
       (\<lambda>error.
          thenDo (logError ''Failed to handle info popup'' (Some error))
         (thenDo (logWarning ''Continuing despite info popup error'')
                 (return True)))\<close>

subsection \<open>selectPassType\<close>

primrec passCardLoop :: "'w driver \<Rightarrow> config \<Rightarrow> elem list \<Rightarrow> ('w, bool) prog" where
  "passCardLoop d cfg [] = return False"
| "passCardLoop d cfg (cardEl # rest) =
     andThen
       (tryCatch
          (andThen (query (property d cardEl TextContent)) (\<lambda>cardText.
             let isAllDay = (stringIncludes cardText ''All Day Pass''
                             \<or> stringIncludes cardText ''All-day Pass'');
                 isHalfDay = (stringIncludes cardText ''Half Day Pass''
                              \<or> stringIncludes cardText ''Half-day Pass'')
             in if (passType cfg = ''all_day'' \<and> isAllDay)
                   \<or> (passType cfg = ''half_day'' \<and> isHalfDay) then
                  thenDo (command d (ElemClick cardEl 1))
                 (thenDo (logSuccess (''Selected '' @ passType cfg @ '' pass''))
                         (return True))
                else return False))
          (\<lambda>error. return False))
       (\<lambda>passSelected. if passSelected then return True else passCardLoop d cfg rest)"

definition selectPassType :: "'w driver \<Rightarrow> config \<Rightarrow> ('w, bool) prog" where
  "selectPassType d cfg =
     tryCatch
       (thenDo (logStep (''Selecting pass type: '' @ passType cfg))
       (thenDo (delay d 2000)
       (andThen (query (queryAll d ''.gridCard, .cardRow .gridCard'')) (\<lambda>passCards.
        andThen (passCardLoop d cfg passCards) (\<lambda>passSelected.
        thenDo
          (whenDo (\<not> passSelected)
             (case passCards of
                first # _ \<Rightarrow>
                  thenDo (command d (ElemClick first 1))
                         (logWarning ''Could not find specific pass type, selected first available'')
              | [] \<Rightarrow> throw (Error ''No pass cards found'')))
       (thenDo (delay d (delayBetweenActions cfg))
       (thenDo (logCompletion ''Pass type selected'')
               (return True))))))))
       (\<lambda>error. thenDo (logError ''Failed to select pass type'' (Some error)) (throw error))"

subsection \<open>selectDateFromNewPicker\<close>

definition isMonthDay :: "string \<Rightarrow> bool" where
  \<comment> \<open>\<open>/^\d{2}\/\d{2}$/.test(s)\<close>\<close>
  "isMonthDay s =
     (length s = 5 \<and> isDigit (s ! 0) \<and> isDigit (s ! 1) \<and> s ! 2 = CHR ''/''
      \<and> isDigit (s ! 3) \<and> isDigit (s ! 4))"

definition isDayNumber :: "string \<Rightarrow> bool" where
  \<comment> \<open>\<open>/^\d{1,2}$/.test(s)\<close>\<close>
  "isDayNumber s = ((length s = 1 \<or> length s = 2) \<and> list_all isDigit s)"

fun splitOn :: "char \<Rightarrow> string \<Rightarrow> string list" where
  \<comment> \<open>\<open>s.split(sep)\<close> for a separator of one character\<close>
  "splitOn sep [] = [[]]"
| "splitOn sep (c # cs) =
     (if c = sep then [] # splitOn sep cs
      else (case splitOn sep cs of w # ws \<Rightarrow> (c # w) # ws | [] \<Rightarrow> [[c]]))"

definition secondPart :: "string \<Rightarrow> string option" where
  \<comment> \<open>\<open>s.split("/")[1]\<close>, \<open>None\<close> for \<open>undefined\<close>\<close>
  "secondPart s = (case splitOn (CHR ''/'') s of _ # x # _ \<Rightarrow> Some x | _ \<Rightarrow> None)"

fun joinWith :: "string \<Rightarrow> string list \<Rightarrow> string" where
  \<comment> \<open>\<open>xs.join(sep)\<close>\<close>
  "joinWith sep [] = []"
| "joinWith sep [x] = x"
| "joinWith sep (x # y # ys) = x @ sep @ joinWith sep (y # ys)"

definition schedulerDates :: selector where
  "schedulerDates = ''#scheduler_12196 .dateMain button.date''"

definition schedulerDatesAlt :: selector where
  "schedulerDatesAlt = ''#scheduler_12196 button.date''"

definition schedulerActiveDate :: selector where
  "schedulerActiveDate = ''#scheduler_12196 .dateMain button.date.active''"

definition preferredDayOf :: "config \<Rightarrow> ('w, string option) prog" where
  \<comment> \<open>the value of \<open>preferredDay\<close>; \<open>None\<close> is \<open>undefined\<close>\<close>
  "preferredDayOf cfg =
     (if isMonthDay (preferredDate cfg) then
        let preferredDay = secondPart (preferredDate cfg) in
        thenDo (logInfo (''Looking for preferred date: '' @ preferredDate cfg @ '' (day: ''
                           @ (case preferredDay of Some day \<Rightarrow> day | None \<Rightarrow> ''undefined'') @ '')''))
               (return preferredDay)
      else if isDayNumber (preferredDate cfg) then
        thenDo (logInfo (''Looking for preferred date: day '' @ preferredDate cfg))
               (return (Some (preferredDate cfg)))
      else
        thenDo (logWarning (''Invalid date format: '' @ preferredDate cfg
                              @ ''. Expected MM/DD or just day number.''))
               (return None))"

definition schedulerDateButtons :: "'w driver \<Rightarrow> ('w, elem list) prog" where
  \<comment> \<open>\<open>dateButtons\<close>, after the alternative selector and the debugging screenshot\<close>
  "schedulerDateButtons d =
     andThen (query (queryAll d schedulerDates)) (\<lambda>found.
     andThen
       (if length found = 0 then
          thenDo (logWarning ''No dates found in scheduler, trying alternative selectors'')
         (andThen (query (queryAll d schedulerDatesAlt)) (\<lambda>altDateButtons.
            if length altDateButtons > 0 then
              thenDo (logInfo (''Found '' @ showNat (length altDateButtons)
                                 @ '' dates using alternative selector''))
                     (return (found @ altDateButtons))
            else return found))
        else return found)
       (\<lambda>dateButtons.
     thenDo
       (whenDo (length dateButtons = 0)
          (thenDo (logError
                     ''No date buttons found in scheduler. This might indicate a page structure change.''
                     None)
                  (tryCatch
                     (andThen (getState (\<lambda>s. now d (world s))) (\<lambda>t.
                      thenDo (command d (Screenshot
                                (''logs/scheduler_date_selection_error_'' @ showNat t @ ''.png'') False))
                             (logInfo ''Screenshot saved for debugging'')))
                     (\<lambda>screenshotError.
                        logWarning (''Could not save screenshot: '' @ message screenshotError)))))
       (return dateButtons)))"

primrec availableDateTexts :: "'w driver \<Rightarrow> elem list \<Rightarrow> ('w, string list) prog" where
  "availableDateTexts d [] = return []"
| "availableDateTexts d (button # rest) =
     andThen (trimmedText d button) (\<lambda>buttonText.
     andThen (availableDateTexts d rest) (\<lambda>texts.
     return (buttonText # texts)))"

primrec dateButtonLoop :: "'w driver \<Rightarrow> config \<Rightarrow> string \<Rightarrow> elem list \<Rightarrow> ('w, bool) prog" where
  "dateButtonLoop d cfg preferredDay [] = return False"
| \<open>dateButtonLoop d cfg preferredDay (button # rest) =
     andThen (trimmedText d button) (\<lambda>buttonText.
     thenDo (logInfo (''Checking button: "'' @ buttonText @ ''" vs preferred: "''
                        @ preferredDay @ ''"''))
       (if buttonText = preferredDay then
          thenDo (logInfo (''Found matching date button: "'' @ buttonText @ ''"''))
         (thenDo (command d (ElemClick button 1))
         (thenDo (logSuccess (''Selected preferred date: '' @ preferredDate cfg @ '' (day: ''
                                @ preferredDay @ '')''))
                 (return True)))
        else dateButtonLoop d cfg preferredDay rest))\<close>

definition selectPreferredDay ::
  "'w driver \<Rightarrow> config \<Rightarrow> string \<Rightarrow> elem list \<Rightarrow> ('w, bool) prog" where
  \<comment> \<open>the body of \<open>if (preferredDay)\<close>; the result is \<open>dateSelected\<close>\<close>
  \<open>selectPreferredDay d cfg preferredDay dateButtons =
     thenDo (logInfo (''Searching for date button with text: "'' @ preferredDay @ ''"''))
    (andThen (query (queryOne d schedulerActiveDate)) (\<lambda>activeDateButton.
     andThen
       (case activeDateButton of
          Some active \<Rightarrow>
            andThen (trimmedText d active) (\<lambda>activeDateText.
            thenDo (logInfo (''Found active date button: "'' @ activeDateText @ ''"''))
              (if activeDateText = preferredDay then
                 thenDo (logSuccess (''Preferred date '' @ preferredDay
                                       @ '' is already active/selected''))
                        (return True)
               else
                 thenDo (logInfo (''Active date '' @ activeDateText
                                    @ '' doesn't match preferred date '' @ preferredDay
                                    @ '', will click preferred date''))
                        (return False)))
        | None \<Rightarrow> return False)
       (\<lambda>dateSelected.
          if \<not> dateSelected then
            thenDo (logInfo (''Searching for date button with text: "'' @ preferredDay @ ''"''))
                   (dateButtonLoop d cfg preferredDay dateButtons)
          else return dateSelected)))\<close>

definition selectPreferredDate :: "'w driver \<Rightarrow> config \<Rightarrow> ('w, bool) prog" where
  \<comment> \<open>the body of \<open>if (config.preferredDate)\<close>; the result is \<open>dateSelected\<close>\<close>
  "selectPreferredDate d cfg =
     andThen (preferredDayOf cfg) (\<lambda>preferredDay.
     andThen (schedulerDateButtons d) (\<lambda>dateButtons.
     andThen (availableDateTexts d dateButtons) (\<lambda>availableDates.
     thenDo (logInfo (''Available dates in scheduler: '' @ joinWith '', '' availableDates))
    (andThen
       (case preferredDay of
          Some day \<Rightarrow>
            if truthy day then selectPreferredDay d cfg day dateButtons else return False
        | None \<Rightarrow> return False)
       (\<lambda>dateSelected.
     thenDo
       (whenDo (\<not> dateSelected)
          (logWarning (''Preferred date '' @ preferredDate cfg
                         @ '' not available in scheduler, selecting first available'')))
       (return dateSelected))))))"

definition selectFirstAvailableDate :: "'w driver \<Rightarrow> bool \<Rightarrow> ('w, bool) prog" where
  \<comment> \<open>the body of \<open>if (!config.preferredDate || !dateSelected)\<close>\<close>
  "selectFirstAvailableDate d dateSelected =
     thenDo (logInfo
       ''No preferred date set or preferred date not found, selecting first available date from scheduler'')
    (andThen (query (queryOne d schedulerDates)) (\<lambda>first.
     andThen (if first = None then query (queryOne d schedulerDatesAlt) else return first)
       (\<lambda>firstAvailableDate.
          case firstAvailableDate of
            Some button \<Rightarrow>
              thenDo (command d (ElemClick button 1))
             (andThen (trimmedText d button) (\<lambda>dateText.
              thenDo (logSuccess (''Selected available date from scheduler: '' @ dateText))
                     (return True)))
          | None \<Rightarrow> return dateSelected)))"

definition selectDateFromNewPicker :: "'w driver \<Rightarrow> config \<Rightarrow> ('w, bool) prog" where
  "selectDateFromNewPicker d cfg =
     tryCatch
       (thenDo (logStep ''Selecting date from new date picker after vehicle selection'')
       (thenDo (waitForElementVisible d ''#scheduler_12196 .dateMain'')
       (thenDo (delay d 1000)
       (thenDo
          (tryCatch
             (andThen (query (\<lambda>w. case evaluateError d w of
                                      Some e \<Rightarrow> Inl e
                                    | None \<Rightarrow> Inr (case docOuterHTML d ''#scheduler_12196'' w of
                                                      Some html \<Rightarrow> html
                                                    | None \<Rightarrow> ''Element not found'')))
                (\<lambda>schedulerHTML.
                   logInfo (''Scheduler HTML: '' @ substring0 300 schedulerHTML @ ''...'')))
             (\<lambda>error. logWarning (''Could not log scheduler HTML: '' @ message error)))
       (andThen
          (if truthy (preferredDate cfg) then selectPreferredDate d cfg else return False)
          (\<lambda>dateSelected1.
        andThen
          (if \<not> truthy (preferredDate cfg) \<or> \<not> dateSelected1
           then selectFirstAvailableDate d dateSelected1
           else return dateSelected1)
          (\<lambda>dateSelected.
        thenDo (delay d (delayBetweenActions cfg))
       (thenDo
          (whenDo (\<not> dateSelected)
             (thenDo (logWarning
                        ''No date was selected from scheduler, this might cause issues later'')
                     (tryCatch
                        (andThen (getState (\<lambda>s. now d (world s))) (\<lambda>t.
                         thenDo (command d (Screenshot
                                   (''logs/no_scheduler_date_selected_'' @ showNat t @ ''.png'') False))
                                (logInfo ''Screenshot saved for debugging'')))
                        (\<lambda>screenshotError.
                           logWarning (''Could not save screenshot: ''
                                         @ message screenshotError)))))
       (thenDo (logCompletion ''Date selected from new picker'')
               (return True))))))))))
       (\<lambda>error.
          thenDo (logError ''Failed to select date from new picker'' (Some error)) (throw error))"

subsection \<open>addToCart\<close>

definition addToCart :: "'w driver \<Rightarrow> config \<Rightarrow> ('w, bool) prog" where
  "addToCart d cfg =
     tryCatch
       (thenDo (logStep ''Adding pass to cart'')
       (thenDo (waitForElementVisible d (addToCartBtn (selectors cfg)))
       (andThen (elementExists d (soldOut (selectors cfg))) (\<lambda>soldOutExists.
        thenDo (whenDo soldOutExists (throw (Error ''Pass is sold out for the selected date'')))
       (thenDo (clickElement d (addToCartBtn (selectors cfg)) 3)
       (thenDo (delay d (delayBetweenActions cfg))
       (thenDo (logCompletion ''Pass added to cart'')
               (return True))))))))
       (\<lambda>error. thenDo (logError ''Failed to add to cart'' (Some error)) (throw error))"

subsection \<open>Vehicle registration and selection for a signed-in user\<close>

definition fillVehicleForm :: "'w driver \<Rightarrow> config \<Rightarrow> ('w, bool) prog" where
  "fillVehicleForm d cfg =
     tryCatch
       (thenDo (logStep ''Filling vehicle form'')
       (thenDo (waitForElementVisible d (licensePlateInput (selectors cfg)))
       (thenDo (fillInput d (licensePlateInput (selectors cfg)) (licensePlate cfg))
       (thenDo (selectOption d (provinceSelect (selectors cfg)) (province cfg))
       (thenDo (selectOption d (colorSelect (selectors cfg)) (vehicleColor cfg))
       (thenDo (selectOption d (makeSelect (selectors cfg)) (vehicleMake cfg))
       (thenDo (fillInput d (modelInput (selectors cfg)) (vehicleModel cfg))
       (thenDo (clickElement d (saveVehicleBtn (selectors cfg)) 3)
       (thenDo (delay d 2000)
       (thenDo (modify (\<lambda>s. s\<lparr>vehicleAdded := True\<rparr>))
       (thenDo (logCompletion ''Vehicle form filled and saved'')
               (return True))))))))))))
       (\<lambda>error. thenDo (logError ''Failed to fill vehicle form'' (Some error)) (throw error))"

definition selectExistingVehicle :: "'w driver \<Rightarrow> ('w, unit) prog" where
  \<comment> \<open>the statements that both \<open>else\<close> branches of the method repeat\<close>
  \<open>selectExistingVehicle d =
     andThen (query (queryOne d ''option[value*="__BC"]'')) (\<lambda>existingVehicle.
       case existingVehicle of
         Some v \<Rightarrow> thenDo (command d (ElemClick v 1)) (logSuccess ''Selected existing vehicle'')
       | None \<Rightarrow> return ())\<close>

definition openVehicleSelector :: "'w driver \<Rightarrow> ('w, unit) prog" where
  \<comment> \<open>the statements of the method up to the test of \<open>this.vehicleAdded\<close>\<close>
  "openVehicleSelector d =
     thenDo (logStep ''Handling vehicle selection for signed-in user'')
    (thenDo (waitForElementVisible d ''#selectVehicleSmartSelect'')
    (thenDo (clickElement d ''#selectVehicleSmartSelect'' 3)
            (delay d 1000)))"

definition addOrSelectVehicle :: "'w driver \<Rightarrow> config \<Rightarrow> ('w, unit) prog" where
  \<comment> \<open>the statement \<open>if (!this.vehicleAdded) ... else ...\<close>\<close>
  \<open>addOrSelectVehicle d cfg =
     andThen (getState vehicleAdded) (\<lambda>added.
       if \<not> added then
         thenDo (logStep ''Adding new vehicle for signed-in user'')
        (andThen (query (queryOne d ''option[value="new_vehicle"]'')) (\<lambda>addVehicleOption.
           case addVehicleOption of
             Some opt \<Rightarrow>
               thenDo (command d (ElemClick opt 1))
              (thenDo (delay d 1000)
              (thenDo (fillVehicleForm d cfg)
                      (return ())))
           | None \<Rightarrow> selectExistingVehicle d))
       else selectExistingVehicle d)\<close>

definition handleVehicleSelectionForSignedInUser :: "'w driver \<Rightarrow> config \<Rightarrow> ('w, bool) prog" where
  "handleVehicleSelectionForSignedInUser d cfg =
     tryCatch
       (thenDo (openVehicleSelector d)
       (thenDo (addOrSelectVehicle d cfg)
       (thenDo (delay d 1000)
       (thenDo (logCompletion ''Vehicle selection completed for signed-in user'')
               (return True)))))
       (\<lambda>error.
          thenDo (logError ''Failed to handle vehicle selection for signed-in user'' (Some error))
                 (throw error))"

definition handleSignedInBooking :: "'w driver \<Rightarrow> config \<Rightarrow> ('w, bool) prog" where
  "handleSignedInBooking d cfg =
     tryCatch
       (thenDo (logStep ''Handling booking page for signed-in user'')
       (thenDo (delay d 3000)
       (andThen (elementExists d ''#selectVehicleSmartSelect'') (\<lambda>vehicleSelectExists.
        thenDo
          (whenDo vehicleSelectExists
             (thenDo (logStep ''Vehicle selection required'')
             (thenDo (handleVehicleSelectionForSignedInUser d cfg)
                     (return ()))))
       (thenDo (logStep ''Vehicle selected, now selecting date from new date picker'')
       (thenDo (selectDateFromNewPicker d cfg)
       (thenDo (addToCart d cfg)
       (thenDo (logCompletion ''Signed-in booking handled'')
               (return True)))))))))
       (\<lambda>error. thenDo (logError ''Failed to handle signed-in booking'' (Some error)) (throw error))"

subsection \<open>handleOTPVerification\<close>

definition otpSelectors :: "selector list" where
  \<open>otpSelectors =
     [''.otpFocusInput'',
      ''input[type="tel"]'',
      ''input[maxlength="1"]'',
      ''input[aria-label*="verification"]'',
      ''input[aria-label*="Digit"]'']\<close>

primrec otpSelectorLoop :: "'w driver \<Rightarrow> selector list \<Rightarrow> ('w, elem list) prog" where
  \<comment> \<open>the result is \<open>otpInputs\<close>\<close>
  "otpSelectorLoop d [] = return []"
| "otpSelectorLoop d (sel # rest) =
     andThen
       (tryCatch
          (andThen (query (queryAll d sel)) (\<lambda>inputs.
             if length inputs \<ge> 4 then
               thenDo (logSuccess (''Found '' @ showNat (length inputs)
                                     @ '' OTP inputs with selector: '' @ sel))
                      (return (Some inputs))
             else return None))
          (\<lambda>error. return None))
       (\<lambda>found. case found of Some inputs \<Rightarrow> return inputs | None \<Rightarrow> otpSelectorLoop d rest)"

primrec otpInputLoop :: "'w driver \<Rightarrow> elem list \<Rightarrow> ('w, elem list) prog" where
  \<comment> \<open>the inputs pushed onto \<open>otpInputs\<close>\<close>
  "otpInputLoop d [] = return []"
| "otpInputLoop d (input # rest) =
     andThen
       (tryCatch
          (andThen (query (property d input TypeAttr)) (\<lambda>inputType.
           andThen (query (maxLength d input)) (\<lambda>inputMaxLength.
           andThen (query (property d input AriaLabel)) (\<lambda>inputAriaLabel.
           return (inputMaxLength = 1
                   \<or> inputType = ''tel''
                   \<or> stringIncludes inputAriaLabel ''Digit''
                   \<or> stringIncludes inputAriaLabel ''verification'')))))
          (\<lambda>error. return False))
       (\<lambda>isOtp.
          andThen (otpInputLoop d rest) (\<lambda>more. return (if isOtp then input # more else more)))"

definition findOtpInputs :: "'w driver \<Rightarrow> ('w, elem list) prog" where
  "findOtpInputs d =
     andThen (otpSelectorLoop d otpSelectors) (\<lambda>bySelector.
     andThen
       (if length bySelector = 0 then
          andThen (query (queryAll d ''input'')) (\<lambda>allInputs.
          thenDo (logInfo (''Found '' @ showNat (length allInputs) @ '' input fields on the page''))
         (andThen (otpInputLoop d allInputs) (\<lambda>otpInputs.
          thenDo (logInfo (''Identified '' @ showNat (length otpInputs)
                             @ '' potential OTP input fields''))
                 (return otpInputs))))
        else return bySelector)
       (\<lambda>otpInputs.
          if length otpInputs = 0 then throw (Error ''Could not find OTP input fields'')
          else return otpInputs))"

definition maxWaitTime :: int where
  "maxWaitTime = 300000"

definition checkInterval :: int where
  "checkInterval = 2000"

definition otpStillVisible :: "'w driver \<Rightarrow> ('w, bool) prog" where
  \<open>otpStillVisible d =
     query (\<lambda>w. case evaluateError d w of
                   Some e \<Rightarrow> Inl e
                 | None \<Rightarrow> Inr (docHas d ''.otpFocusInput'' w
                                \<or> docHas d ''input[maxlength="1"]'' w))\<close>

function otpWaitLoop :: "'w driver \<Rightarrow> int \<Rightarrow> ('w, int) prog" where
  \<comment> \<open>the \<open>while\<close> loop, from the given value of \<open>waitedTime\<close>; the result is its final value\<close>
  "otpWaitLoop d waitedTime s =
     (if waitedTime < maxWaitTime then
        andThen (otpStillVisible d) (\<lambda>stillVisible.
          if \<not> stillVisible then
            thenDo (logSuccess ''OTP verification appears to be completed'')
                   (return waitedTime)
          else
            thenDo (delay d checkInterval)
           (thenDo (whenDo ((waitedTime + checkInterval) mod 10000 = 0)
                      (logInfo (''Still waiting for OTP verification... (''
                                  @ showNat (nat ((waitedTime + checkInterval) div 1000)) @ ''s)'')))
                   (otpWaitLoop d (waitedTime + checkInterval))))
          s
      else return waitedTime s)"
  by pat_completeness auto
termination
  by (relation "measure (\<lambda>(d, waitedTime, s). nat (maxWaitTime - waitedTime))")
     (auto simp: maxWaitTime_def checkInterval_def)

declare otpWaitLoop.simps [simp del]

primrec otpSubmitLoop :: "'w driver \<Rightarrow> selector list \<Rightarrow> ('w, bool) prog" where
  \<comment> \<open>the result is \<open>otpSubmitted\<close>\<close>
  "otpSubmitLoop d [] = return False"
| "otpSubmitLoop d (sel # rest) =
     andThen
       (tryCatch
          (andThen (elementExists d sel) (\<lambda>ex.
             if ex then
               thenDo (clickElement d sel 3)
              (thenDo (logSuccess (''OTP submitted using selector: '' @ sel))
                      (return True))
             else return False))
          (\<lambda>error.
             thenDo (logWarning (''Submit selector '' @ sel @ '' failed: '' @ message error))
                    (return False)))
       (\<lambda>otpSubmitted. if otpSubmitted then return True else otpSubmitLoop d rest)"

definition submitOtp :: "'w driver \<Rightarrow> config \<Rightarrow> ('w, bool) prog" where
  \<comment> \<open>the statements after the wait: submission and completion\<close>
  \<open>submitOtp d cfg =
     andThen (otpSubmitLoop d
                [otpSubmitBtn (selectors cfg),
                 ''.themeBtn.button'',
                 ''button[type="submit"]'',
                 ''a.themeBtn.button'']) (\<lambda>otpSubmitted.
     thenDo (whenDo (\<not> otpSubmitted) (throw (Error ''Could not submit OTP'')))
    (thenDo (delay d (delayBetweenActions cfg))
    (thenDo (logCompletion ''OTP verification completed'')
            (return True))))\<close>

definition afterOtpWait :: "'w driver \<Rightarrow> config \<Rightarrow> int \<Rightarrow> ('w, bool) prog" where
  \<comment> \<open>the statements after the \<open>while\<close> loop\<close>
  "afterOtpWait d cfg waitedTime =
     thenDo
       (whenDo (waitedTime \<ge> maxWaitTime)
          (thenDo (logWarning ''Timeout waiting for OTP verification'')
                  (logInfo ''Please complete the verification manually and the bot will continue'')))
       (submitOtp d cfg)"

definition beforeOtpWait :: "'w driver \<Rightarrow> ('w, unit) prog" where
  \<comment> \<open>the statements before the \<open>while\<close> loop\<close>
  "beforeOtpWait d =
     thenDo (logStep ''Handling OTP verification'')
    (thenDo (delay d 3000)
    (thenDo (takeScreenshot d ''otp_form'')
    (thenDo (findOtpInputs d)
    (thenDo (logWarning ''OTP verification code required!'')
    (thenDo (logInfo ''Please check your phone for the verification code'')
    (thenDo (logInfo ''Enter the 4-digit code manually in the browser'')
            (logInfo ''Bot will wait for you to complete this step...'')))))))"

definition handleOTPVerification :: "'w driver \<Rightarrow> config \<Rightarrow> ('w, bool) prog" where
  "handleOTPVerification d cfg =
     tryCatch
       (thenDo (beforeOtpWait d)
       (andThen (otpWaitLoop d 0) (\<lambda>waitedTime.
        afterOtpWait d cfg waitedTime)))
       (\<lambda>error. thenDo (logError ''Failed to handle OTP verification'' (Some error)) (throw error))"

subsection \<open>handleLogin\<close>

definition phoneInputSelectors :: "selector list" where
  \<open>phoneInputSelectors =
     [''#txtPhonenumber'',
      ''input[name="number"]'',
      ''input[type="number"]'',
      ''input[placeholder*="Enter number"]'']\<close>

primrec phoneSelectorLoop :: "'w driver \<Rightarrow> selector list \<Rightarrow> ('w, bool \<times> elem option) prog" where
  \<comment> \<open>the result is \<open>(phoneInputFound, phoneInput)\<close>\<close>
  "phoneSelectorLoop d [] = return (False, None)"
| "phoneSelectorLoop d (sel # rest) =
     andThen
       (tryCatch
          (andThen (elementExists d sel) (\<lambda>ex.
             if ex then
               andThen (query (queryOne d sel)) (\<lambda>phoneInput.
               thenDo (logSuccess (''Found phone input with selector: '' @ sel))
                      (return (Some phoneInput)))
             else return None))
          (\<lambda>error.
             thenDo (logWarning (''Selector '' @ sel @ '' failed: '' @ message error))
                    (return None)))
       (\<lambda>found. case found of
                   Some phoneInput \<Rightarrow> return (True, phoneInput)
                 | None \<Rightarrow> phoneSelectorLoop d rest)"

primrec phoneInputLoop :: "'w driver \<Rightarrow> elem list \<Rightarrow> ('w, bool \<times> elem option) prog" where
  "phoneInputLoop d [] = return (False, None)"
| "phoneInputLoop d (input # rest) =
     andThen
       (tryCatch
          (andThen (query (property d input TypeAttr)) (\<lambda>inputType.
           andThen (query (property d input IdAttr)) (\<lambda>inputId.
           andThen (query (property d input NameAttr)) (\<lambda>inputName.
           andThen (query (property d input Placeholder)) (\<lambda>inputPlaceholder.
           thenDo (logInfo (''Input: type='' @ inputType @ '', id='' @ inputId @ '', name=''
                              @ inputName @ '', placeholder='' @ inputPlaceholder))
             (if inputType = ''number''
                 \<or> stringIncludes inputId ''phone''
                 \<or> stringIncludes inputName ''number''
                 \<or> stringIncludes inputPlaceholder ''number''
                 \<or> stringIncludes inputPlaceholder ''phone'' then
                thenDo (logSuccess (''Found phone input by attributes: type='' @ inputType
                                      @ '', id='' @ inputId))
                       (return True)
              else return False))))))
          (\<lambda>error. return False))
       (\<lambda>found. if found then return (True, Some input) else phoneInputLoop d rest)"

primrec nextButtonLoop :: "'w driver \<Rightarrow> elem list \<Rightarrow> nat \<Rightarrow> ('w, bool) prog" where
  \<comment> \<open>the loop over \<open>allButtons\<close> from index \<open>i\<close>; the result is \<open>nextButtonClicked\<close>\<close>
  "nextButtonLoop d [] i = return False"
| \<open>nextButtonLoop d (button # rest) i =
     andThen
       (tryCatch
          (andThen (query (property d button TextContent)) (\<lambda>buttonText.
           andThen (query (property d button ClassName)) (\<lambda>buttonClass.
           andThen (query (property d button TagName)) (\<lambda>buttonTag.
           thenDo (logInfo (''Button '' @ showNat (i + 1) @ '': '' @ buttonTag @ ''.'' @ buttonClass
                              @ '' - "'' @ buttonText @ ''"''))
             (if stringIncludes (toLowerCase buttonText) ''next'' then
                thenDo (logSuccess (''Found Next button: '' @ buttonTag @ ''.'' @ buttonClass
                                      @ '' - "'' @ buttonText @ ''"''))
               (thenDo (command d (ElemClick button 1))
               (thenDo (logSuccess ''Clicked Next button directly'')
                       (return True)))
              else return False)))))
          (\<lambda>error. return False))
       (\<lambda>clicked. if clicked then return True else nextButtonLoop d rest (i + 1))\<close>

definition cardFooterNext :: "'w driver \<Rightarrow> ('w, bool) prog" where
  "cardFooterNext d =
     tryCatch
       (andThen (query (queryOne d ''.cardfooter .themeBtn.button'')) (\<lambda>nextButton.
          case nextButton of
            Some button \<Rightarrow>
              andThen (query (property d button TextContent)) (\<lambda>buttonText.
                if stringIncludes (toLowerCase buttonText) ''next'' then
                  thenDo (command d (ElemClick button 1))
                 (thenDo (logSuccess ''Clicked Next button using .cardfooter .themeBtn.button'')
                         (return True))
                else return False)
          | None \<Rightarrow> return False))
       (\<lambda>error. thenDo (logWarning (''Specific selector failed: '' @ message error)) (return False))"

definition findPhoneInput :: "'w driver \<Rightarrow> ('w, elem) prog" where
  \<comment> \<open>the search for \<open>phoneInput\<close>, up to the test \<open>!phoneInputFound || !phoneInput\<close>\<close>
  "findPhoneInput d =
     andThen (phoneSelectorLoop d phoneInputSelectors) (\<lambda>bySelector.
     andThen
       (if \<not> fst bySelector then
          andThen (query (queryAll d ''input'')) (\<lambda>allInputs.
          thenDo (logInfo (''Found '' @ showNat (length allInputs) @ '' input fields on the page''))
                 (phoneInputLoop d allInputs))
        else return bySelector)
       (\<lambda>found.
          case (if fst found then snd found else None) of
            None \<Rightarrow> throw (Error ''Could not find phone number input field'')
          | Some phoneEl \<Rightarrow> return phoneEl))"

definition clickNextButton :: "'w driver \<Rightarrow> ('w, unit) prog" where
  \<comment> \<open>the search for the Next button, up to the test \<open>!nextButtonClicked\<close>\<close>
  "clickNextButton d =
     thenDo (logStep ''Clicking Next button'')
    (andThen (query (queryAll d ''a, button'')) (\<lambda>allButtons.
     thenDo (logInfo (''Found '' @ showNat (length allButtons) @ '' buttons/links on the page''))
    (andThen (nextButtonLoop d allButtons 0) (\<lambda>clicked1.
     andThen (if \<not> clicked1 then cardFooterNext d else return clicked1) (\<lambda>nextButtonClicked.
       whenDo (\<not> nextButtonClicked)
         (throw (Error ''Could not find or click Next button'')))))))"

definition handleLogin :: "'w driver \<Rightarrow> config \<Rightarrow> ('w, bool) prog" where
  "handleLogin d cfg =
     tryCatch
       (thenDo (logStep ''Handling login process'')
       (thenDo (delay d 2000)
       (thenDo (takeScreenshot d ''login_form'')
       (andThen (findPhoneInput d) (\<lambda>phoneEl.
        thenDo (logStep (''Filling phone number: '' @ phoneNumber cfg))
       (thenDo (command d (ElemFocus phoneEl))
       (thenDo (command d (ElemType phoneEl (phoneNumber cfg)))
       (thenDo (logSuccess ''Phone number filled successfully'')
       (thenDo (delay d 3000)
       (thenDo (clickNextButton d)
       (thenDo (delay d (delayBetweenActions cfg))
       (thenDo (handleOTPVerification d cfg)
       (thenDo (modify (\<lambda>s. s\<lparr>isLoggedIn := True\<rparr>))
       (thenDo (logCompletion ''Login completed'')
               (return True)))))))))))))))
       (\<lambda>error. thenDo (logError ''Failed to handle login'' (Some error)) (throw error))"

subsection \<open>handleVehicleSelection and handleDropdownVehicleSelection\<close>

definition quoted :: "string \<Rightarrow> string" where
  \<comment> \<open>a string between single quotes, as interpolated into an XPath expression\<close>
  "quoted s = [CHR 0x27] @ s @ [CHR 0x27]"

definition vehicleSelector :: "config \<Rightarrow> string" where
  \<open>vehicleSelector cfg =
     ''//div[contains(@class, 'item-title') and contains(text(), '' @ quoted (vehicleModel cfg)
       @ '')]''\<close>

definition flexibleSelector :: "config \<Rightarrow> string" where
  \<open>flexibleSelector cfg =
     ''//div[contains(@class, 'item-title') and contains(translate(text(), 'ABCDEFGHIJKLMNOPQRSTUVWXYZ', 'abcdefghijklmnopqrstuvwxyz'), ''
       @ quoted (toLowerCase (vehicleModel cfg)) @ '')]''\<close>

definition vehiclePopupSelector :: selector where
  \<open>vehiclePopupSelector = ''.page.smart-select-page[data-name="smart-select-page"]''\<close>

definition searchInputSelector :: selector where
  \<open>searchInputSelector = ''input[type="search"][placeholder="Search vehicle"]''\<close>

primrec logVehicles :: "'w driver \<Rightarrow> elem list \<Rightarrow> nat \<Rightarrow> ('w, unit) prog" where
  \<comment> \<open>the debugging loop over \<open>allVehicles\<close> from index \<open>i\<close>\<close>
  "logVehicles d [] i = return ()"
| "logVehicles d (vehicle # rest) i =
     andThen (query (property d vehicle TextContent)) (\<lambda>vehicleText.
     thenDo (logInfo (''Vehicle '' @ showNat (i + 1) @ '': '' @ vehicleText))
            (logVehicles d rest (i + 1)))"

definition logAllVehicles :: "'w driver \<Rightarrow> ('w, unit) prog" where
  "logAllVehicles d =
     andThen (query (queryAll d ''.item-title'')) (\<lambda>allVehicles.
       whenDo (length allVehicles > 0)
         (thenDo (logStep (''Found '' @ showNat (length allVehicles) @ '' vehicles on the page''))
                 (logVehicles d allVehicles 0)))"

definition isSelectableVehicle :: "string \<Rightarrow> bool" where
  \<comment> \<open>\<open>vehicleText && vehicleText !== "Select..." && vehicleText !== "Add a Vehicle"\<close>\<close>
  "isSelectableVehicle vehicleText =
     (truthy vehicleText \<and> vehicleText \<noteq> ''Select...'' \<and> vehicleText \<noteq> ''Add a Vehicle'')"

primrec availableVehicleLoop :: "'w driver \<Rightarrow> elem list \<Rightarrow> ('w, bool) prog" where
  \<comment> \<open>the loop over \<open>availableVehicles\<close> of \<open>handleVehicleSelection\<close>;
      the result is \<open>selectedVehicle\<close>\<close>
  "availableVehicleLoop d [] = return False"
| "availableVehicleLoop d (vehicle # rest) =
     andThen (query (property d vehicle TextContent)) (\<lambda>vehicleText.
       if isSelectableVehicle vehicleText then
         thenDo (command d (ElemClick vehicle 1))
        (thenDo (logSuccess (''Selected available vehicle: '' @ vehicleText))
                (return True))
       else availableVehicleLoop d rest)"

definition chooseVehicle :: "'w driver \<Rightarrow> config \<Rightarrow> ('w, unit) prog" where
  \<comment> \<open>\<open>handleVehicleSelection\<close>, from the definition of \<open>vehicleSelector\<close> to the end of
      the selection\<close>
  "chooseVehicle d cfg =
     thenDo (logAllVehicles d)
    (andThen (query (queryXPath d (vehicleSelector cfg))) (\<lambda>vehicleElement.
       case vehicleElement of
         v # _ \<Rightarrow>
           thenDo (command d (ElemClick v 1))
                  (logSuccess (''Selected vehicle with model: '' @ vehicleModel cfg))
       | [] \<Rightarrow>
           thenDo (logStep ''Exact match not found, trying flexible search'')
          (andThen (query (queryXPath d (flexibleSelector cfg))) (\<lambda>flexibleVehicleElement.
             case flexibleVehicleElement of
               v # _ \<Rightarrow>
                 thenDo (command d (ElemClick v 1))
                        (logSuccess (''Selected vehicle using flexible search for model: ''
                                       @ vehicleModel cfg))
             | [] \<Rightarrow>
                 thenDo (logStep ''No model match found, trying to select first available vehicle'')
                (andThen (query (queryAll d ''.item-title'')) (\<lambda>availableVehicles.
                 andThen (availableVehicleLoop d availableVehicles) (\<lambda>selectedVehicle.
                   whenDo (\<not> selectedVehicle)
                     (throw (Error ''No suitable vehicle found for selection'')))))))))"

definition awaitVehiclePopupClosed :: "'w driver \<Rightarrow> config \<Rightarrow> ('w, unit) prog" where
  \<comment> \<open>the statements after the selection, the same in both methods\<close>
  "awaitVehiclePopupClosed d cfg =
     thenDo (delay d (delayBetweenActions cfg))
    (thenDo
       (tryCatch
          (thenDo (command d (WaitForSelector vehiclePopupSelector Hidden 10000))
                  (logSuccess ''Vehicle selection popup closed''))
          (\<lambda>error. logWarning ''Vehicle selection popup may not have closed properly''))
       (delay d 2000))"

definition handleVehicleSelection :: "'w driver \<Rightarrow> config \<Rightarrow> ('w, bool) prog" where
  "handleVehicleSelection d cfg =
     tryCatch
       (thenDo (logStep ''Handling vehicle selection'')
       (thenDo (waitForElementVisible d vehiclePopupSelector)
       (thenDo (waitForElementVisible d searchInputSelector)
       (andThen (query (queryOne d searchInputSelector)) (\<lambda>searchInput.
        thenDo
          (case searchInput of
             Some inp \<Rightarrow>
               thenDo (command d (ElemClick inp 3))
              (thenDo (command d (ElemType inp (vehicleModel cfg)))
              (thenDo (logSuccess (''Filled search input with vehicle model: '' @ vehicleModel cfg))
                      (delay d 1000)))
           | None \<Rightarrow> return ())
       (thenDo (chooseVehicle d cfg)
       (thenDo (awaitVehiclePopupClosed d cfg)
       (thenDo (logCompletion ''Vehicle selection completed'')
               (return True)))))))))
       (\<lambda>error. thenDo (logError ''Failed to handle vehicle selection'' (Some error)) (throw error))"

definition clickOrEvalClick ::
  "'w driver \<Rightarrow> elem \<Rightarrow> string \<Rightarrow> string \<Rightarrow> string \<Rightarrow> ('w, unit) prog" where
  \<comment> \<open>the click of a matching vehicle in \<open>handleDropdownVehicleSelection\<close>, with its
      second click method; the three messages differ between the two places it occurs\<close>
  "clickOrEvalClick d el selectedMsg failedMsg couldNotMsg =
     tryCatch
       (thenDo (delay d 500)
       (thenDo (command d (ElemClick el 1))
               (logSuccess selectedMsg)))
       (\<lambda>clickError.
          thenDo (logWarning (failedMsg @ message clickError))
            (tryCatch
               (thenDo (command d (EvalClick el))
                       (logSuccess (selectedMsg @ '' using alternative click method'')))
               (\<lambda>altClickError.
                  thenDo (logError (''Alternative click method also failed: ''
                                      @ message altClickError) None)
                         (throw (Error (couldNotMsg @ message clickError))))))"

primrec availableVehicleLoopDropdown :: "'w driver \<Rightarrow> elem list \<Rightarrow> ('w, bool) prog" where
  \<comment> \<open>the loop over \<open>availableVehicles\<close> of \<open>handleDropdownVehicleSelection\<close>;
      the result is \<open>selectedVehicle\<close>\<close>
  "availableVehicleLoopDropdown d [] = return False"
| "availableVehicleLoopDropdown d (vehicle # rest) =
     andThen (query (property d vehicle TextContent)) (\<lambda>vehicleText.
       if isSelectableVehicle vehicleText then
         andThen
           (tryCatch
              (thenDo (delay d 500)
              (thenDo (command d (ElemClick vehicle 1))
              (thenDo (logSuccess (''Selected available vehicle: '' @ vehicleText))
                      (return True))))
              (\<lambda>clickError.
                 thenDo (logWarning (''Failed to click available vehicle: '' @ message clickError))
                   (tryCatch
                      (thenDo (command d (EvalClick vehicle))
                      (thenDo (logSuccess (''Selected available vehicle: '' @ vehicleText
                                             @ '' using alternative click method''))
                              (return True)))
                      (\<lambda>altClickError.
                         thenDo (logWarning (''Alternative click method also failed for ''
                                               @ vehicleText @ '': '' @ message altClickError))
                                (return False)))))
           (\<lambda>selectedVehicle.
              if selectedVehicle then return True else availableVehicleLoopDropdown d rest)
       else availableVehicleLoopDropdown d rest)"

definition chooseVehicleDropdown :: "'w driver \<Rightarrow> config \<Rightarrow> ('w, unit) prog" where
  \<comment> \<open>\<open>handleDropdownVehicleSelection\<close>, from the definition of \<open>vehicleSelector\<close> to the
      end of the selection\<close>
  "chooseVehicleDropdown d cfg =
     thenDo (logAllVehicles d)
    (andThen (query (queryXPath d (vehicleSelector cfg))) (\<lambda>vehicleElement.
       case vehicleElement of
         v # _ \<Rightarrow>
           clickOrEvalClick d v
             (''Selected vehicle with model: '' @ vehicleModel cfg)
             ''Failed to click vehicle element: ''
             ''Could not click on vehicle element: ''
       | [] \<Rightarrow>
           thenDo (logStep ''Exact match not found, trying flexible search'')
          (andThen (query (queryXPath d (flexibleSelector cfg))) (\<lambda>flexibleVehicleElement.
             case flexibleVehicleElement of
               v # _ \<Rightarrow>
                 clickOrEvalClick d v
                   (''Selected vehicle using flexible search for model: '' @ vehicleModel cfg)
                   ''Failed to click flexible vehicle element: ''
                   ''Could not click on flexible vehicle element: ''
             | [] \<Rightarrow>
                 thenDo (logStep ''No model match found, trying to select first available vehicle'')
                (andThen (query (queryAll d ''.item-title'')) (\<lambda>availableVehicles.
                 andThen (availableVehicleLoopDropdown d availableVehicles) (\<lambda>selectedVehicle.
                   whenDo (\<not> selectedVehicle)
                     (throw (Error ''No suitable vehicle found for selection'')))))))))"

definition fillDropdownSearch :: "'w driver \<Rightarrow> config \<Rightarrow> ('w, unit) prog" where
  \<comment> \<open>the statements that fill the search input of the popup\<close>
  "fillDropdownSearch d cfg =
     andThen (query (queryOne d searchInputSelector)) (\<lambda>searchInput.
       case searchInput of
         Some inp \<Rightarrow>
           let searchTerm = vehicleMake cfg @ '' '' @ vehicleModel cfg @ '' '' @ licensePlate cfg
           in thenDo (command d (ElemClick inp 3))
             (thenDo (command d (ElemType inp searchTerm))
             (thenDo (logSuccess (''Filled search input with: '' @ searchTerm))
                     (delay d 1000)))
       | None \<Rightarrow> return ())"

definition selectFromDropdown :: "'w driver \<Rightarrow> config \<Rightarrow> elem \<Rightarrow> ('w, bool) prog" where
  \<comment> \<open>the body of \<open>if (smartSelectLink)\<close>\<close>
  "selectFromDropdown d cfg link =
     thenDo (logStep ''Clicking on smart-select link to open popup'')
    (thenDo (command d (ElemClick link 1))
    (thenDo (delay d 1000)
    (thenDo (waitForElementVisible d vehiclePopupSelector)
    (thenDo (waitForElementVisible d searchInputSelector)
    (thenDo (fillDropdownSearch d cfg)
    (thenDo (chooseVehicleDropdown d cfg)
    (thenDo (awaitVehiclePopupClosed d cfg)
    (thenDo (logCompletion ''Vehicle selection from dropdown completed'')
            (return True)))))))))"

definition handleDropdownVehicleSelection :: "'w driver \<Rightarrow> config \<Rightarrow> ('w, bool) prog" where
  "handleDropdownVehicleSelection d cfg =
     tryCatch
       (thenDo (logStep ''Handling vehicle selection from dropdown'')
       (andThen (query (queryOne d ''.smartSelectCustom .item-link.smart-select''))
          (\<lambda>smartSelectLink.
             case smartSelectLink of
               Some link \<Rightarrow> selectFromDropdown d cfg link
             | None \<Rightarrow> throw (Error ''Smart-select link not found''))))
       (\<lambda>error.
          thenDo (logError ''Failed to handle dropdown vehicle selection'' (Some error))
                 (throw error))"

subsection \<open>handlePostLoginFlow, completeCheckout, cleanup\<close>

primrec alternativeSelectorLoop :: "'w driver \<Rightarrow> selector list \<Rightarrow> ('w, bool) prog" where
  \<comment> \<open>the result is \<open>foundSelector\<close>\<close>
  "alternativeSelectorLoop d [] = return False"
| "alternativeSelectorLoop d (sel # rest) =
     andThen (elementExists d sel) (\<lambda>ex.
       if ex then thenDo (logInfo (''Found alternative selector: '' @ sel)) (return True)
       else alternativeSelectorLoop d rest)"

definition handlePostLoginFlow :: "'w driver \<Rightarrow> config \<Rightarrow> ('w, bool) prog" where
  \<open>handlePostLoginFlow d cfg =
     tryCatch
       (thenDo (logStep ''Handling post-login flow'')
       (thenDo (delay d 5000)
       (thenDo (takeScreenshot d ''post_login_page'')
       (andThen (elementExists d ''#selectVehicleSmartSelect'') (\<lambda>vehicleSelectorExists.
        andThen (alternativeSelectorLoop d
                   [''.smartSelectCustom'', ''.item-link.smart-select'', ''[id*='selectVehicle']''])
          (\<lambda>foundSelector.
             if vehicleSelectorExists \<or> foundSelector then
               thenDo (logStep ''Back on booking page, handling vehicle selection'')
              (thenDo (handleDropdownVehicleSelection d cfg)
              (thenDo (logStep ''Vehicle selected, now selecting date from new date picker'')
              (thenDo (selectDateFromNewPicker d cfg)
              (thenDo (addToCart d cfg)
              (thenDo (logCompletion ''Post-login flow completed'')
                      (return True))))))
             else
               thenDo (logWarning ''Vehicle selector not found on post-login page'')
              (thenDo (logStep ''Taking screenshot for debugging'')
              (thenDo (takeScreenshot d ''no_vehicle_selector_found'')
                      (throw (Error ''Post-login page not loaded properly''))))))))))
       (\<lambda>error. thenDo (logError ''Failed to handle post-login flow'' (Some error)) (throw error))\<close>

definition completeCheckout :: "'w driver \<Rightarrow> config \<Rightarrow> ('w, bool) prog" where
  "completeCheckout d cfg =
     tryCatch
       (thenDo (logStep ''Completing checkout'')
       (thenDo (waitForElementVisible d (checkoutBtn (selectors cfg)))
       (thenDo (clickElement d (checkoutBtn (selectors cfg)) 3)
       (thenDo (delay d (delayBetweenActions cfg))
       (thenDo (takeScreenshot d ''checkout_completed'')
       (thenDo (logCompletion ''Checkout completed'')
               (return True)))))))
       (\<lambda>error. thenDo (logError ''Failed to complete checkout'' (Some error)) (throw error))"

definition cleanup :: "'w driver \<Rightarrow> ('w, unit) prog" where
  "cleanup d =
     tryCatch
       (andThen (getState browser) (\<lambda>open.
          whenDo open
            (thenDo (command d CloseBrowser) (logSuccess ''Browser closed''))))
       (\<lambda>error. logError ''Failed to cleanup resources'' (Some error))"

subsection \<open>bookParkingPass\<close>

definition guestBooking :: "'w driver \<Rightarrow> config \<Rightarrow> ('w, unit) prog" where
  \<comment> \<open>the \<open>else\<close> branch of \<open>if (vehicleSelectExists)\<close>\<close>
  "guestBooking d cfg =
     thenDo (logStep ''User not signed in, proceeding with login flow'')
    (thenDo (logStep ''Selecting preferred date before adding to cart'')
    (thenDo (selectDateFromNewPicker d cfg)
    (thenDo (addToCart d cfg)
    (thenDo (delay d 3000)
    (andThen (elementExists d ''.signinModel, .modelLogin, #slideNo1'') (\<lambda>loginFormVisible.
       if loginFormVisible then
         thenDo (logStep ''Login form is visible, proceeding with login'')
           (tryCatch
              (thenDo (handleLogin d cfg)
              (thenDo (logStep ''Login completed, handling post-login flow'')
              (thenDo (handlePostLoginFlow d cfg)
                      (return ()))))
              (\<lambda>error.
                 thenDo (logError ''Login or vehicle selection failed'' (Some error))
                (thenDo (takeScreenshot d ''login_failed'')
                        (throw error))))
       else
         thenDo (logWarning ''Login form not visible after adding to cart'')
        (thenDo (takeScreenshot d ''no_login_form'')
                (throw (Error ''Login form not found after adding to cart'')))))))))"

definition beforeCheckout :: "'w driver \<Rightarrow> config \<Rightarrow> ('w, unit) prog" where
  \<comment> \<open>the statements of the \<open>try\<close> block before \<open>completeCheckout\<close>\<close>
  "beforeCheckout d cfg =
     thenDo (logStep ''Starting parking pass booking process'')
    (thenDo (initialize d cfg)
    (thenDo (navigateToPortal d cfg)
    (thenDo (handleInfoPopup d cfg)
    (thenDo (selectPassType d cfg)
    (andThen (elementExists d ''#selectVehicleSmartSelect'') (\<lambda>vehicleSelectExists.
       if vehicleSelectExists then
         thenDo (logStep ''User appears to be signed in, handling signed-in booking'')
        (thenDo (handleSignedInBooking d cfg)
                (return ()))
       else guestBooking d cfg))))))"

definition bookParkingPass :: "'w driver \<Rightarrow> config \<Rightarrow> ('w, bool) prog" where
  "bookParkingPass d cfg =
     tryFinally
       (tryCatch
          (thenDo (beforeCheckout d cfg)
          (thenDo (completeCheckout d cfg)
          (thenDo (logSuccess ''Parking pass booking completed successfully!'')
                  (return True))))
          (\<lambda>error.
             thenDo (logError ''Booking process failed'' (Some error))
            (andThen (getState page) (\<lambda>hasPage.
             thenDo (whenDo hasPage (thenDo (takeScreenshot d ''error_state'') (return ())))
                    (throw error)))))
       (cleanup d)"

definition newBot :: "('w, unit) prog" where
  \<comment> \<open>\<open>new BuntzenLakeBot()\<close>: the constructor resets the fields of the instance\<close>
  "newBot =
     modify (\<lambda>s. s\<lparr>browser := False, page := False, isLoggedIn := False, vehicleAdded := False\<rparr>)"

section \<open>scheduler.js\<close>

definition runScheduledJob :: "'w driver \<Rightarrow> config \<Rightarrow> string \<Rightarrow> ('w, unit) prog" where
  "runScheduledJob d cfg jobName =
     andThen (getState isRunning) (\<lambda>running.
       if running then
         logWarning (''Bot is already running, skipping scheduled job: '' @ jobName)
       else
         tryFinally
           (tryCatch
              (thenDo (modify (\<lambda>s. s\<lparr>isRunning := True\<rparr>))
              (thenDo (logStep (''Running scheduled job: '' @ jobName))
              (thenDo newBot
              (thenDo (bookParkingPass d cfg)
                      (logSuccess (''Scheduled job completed: '' @ jobName))))))
              (\<lambda>error. logError (''Scheduled job failed: '' @ jobName) (Some error)))
           (modify (\<lambda>s. s\<lparr>isRunning := False\<rparr>)))"

section \<open>Notions used to state the properties\<close>

text \<open>
  What a program adds to the trace, and predicates on programs: \<open>keeps R m\<close> says that
  every execution of \<open>m\<close> relates the state before to the state after by \<open>R\<close>;
  \<open>grows P\<close> relates two states when the trace of the second extends the trace of the
  first by events that all satisfy \<open>P\<close>.
\<close>

definition emitted :: "'w state \<Rightarrow> 'w state \<Rightarrow> event list" where
  "emitted s s' = drop (length (trace s)) (trace s')"

definition keeps :: "('w state \<Rightarrow> 'w state \<Rightarrow> bool) \<Rightarrow> ('w, 'a) prog \<Rightarrow> bool" where
  "keeps R m = (\<forall>s r s'. m s = (r, s') \<longrightarrow> R s s')"

definition grows :: "(event \<Rightarrow> bool) \<Rightarrow> 'w state \<Rightarrow> 'w state \<Rightarrow> bool" where
  "grows P s s' = (\<exists>es. trace s' = trace s @ es \<and> list_all P es)"

definition sameBot :: "'w state \<Rightarrow> 'w state \<Rightarrow> bool" where
  \<comment> \<open>no field of the bot or of the scheduler has changed\<close>
  "sameBot s s' =
     (browser s' = browser s \<and> page s' = page s \<and> isLoggedIn s' = isLoggedIn s
      \<and> vehicleAdded s' = vehicleAdded s \<and> isRunning s' = isRunning s)"

definition noThrow :: "('w, 'a) prog \<Rightarrow> bool" where
  "noThrow m = (\<forall>s. \<exists>x s'. m s = (Inr x, s'))"

definition fails :: "('w, 'a) prog \<Rightarrow> bool" where
  "fails m = (\<forall>s. \<exists>e s'. m s = (Inl e, s'))"

definition waitEvent :: "selector \<Rightarrow> bool \<Rightarrow> event" where
  \<comment> \<open>the visibility wait of \<open>waitForElementVisible\<close>, with its outcome\<close>
  "waitEvent sel ok = Act (WaitForSelector sel Visible 10000) ok"

definition clickEvent :: "selector \<Rightarrow> bool \<Rightarrow> event" where
  \<comment> \<open>\<open>page.click(sel)\<close>, with its outcome\<close>
  "clickEvent sel ok = Act (Click sel) ok"

definition attemptsIn :: "selector \<Rightarrow> event list \<Rightarrow> nat" where
  \<comment> \<open>the number of click attempts: each starts with a visibility wait\<close>
  "attemptsIn sel es = count_list es (waitEvent sel True) + count_list es (waitEvent sel False)"


fun totalDelay :: "event list \<Rightarrow> int" where
  \<comment> \<open>the time spent in \<open>delay\<close>\<close>
  "totalDelay [] = 0"
| "totalDelay (Delay ms # es) = ms + totalDelay es"
| "totalDelay (e # es) = totalDelay es"


definition checkoutStep :: event where
  \<comment> \<open>the first statement of \<open>completeCheckout\<close>\<close>
  "checkoutStep = Log Step ''Completing checkout''"

definition soldOutLog :: event where
  \<comment> \<open>the \<open>catch\<close> block of \<open>addToCart\<close> logging the error thrown for a sold-out pass\<close>
  "soldOutLog = Log Failure ''Failed to add to cart: Pass is sold out for the selected date''"

definition benign :: "event \<Rightarrow> bool" where
  "benign e = (e \<noteq> checkoutStep \<and> e \<noteq> soldOutLog)"

definition yields :: "('w state \<Rightarrow> error + 'a \<Rightarrow> 'w state \<Rightarrow> bool) \<Rightarrow> ('w, 'a) prog \<Rightarrow> bool" where
  \<comment> \<open>every execution relates the state before, the result and the state after by \<open>Q\<close>\<close>
  "yields Q m = (\<forall>s r s'. m s = (r, s') \<longrightarrow> Q s r s')"

definition saveClick :: "config \<Rightarrow> event" where
  \<comment> \<open>the registration form is submitted: the click on its save button went through\<close>
  "saveClick cfg = clickEvent (saveVehicleBtn (selectors cfg)) True"



definition pollAfter :: "'w driver \<Rightarrow> 'w state \<Rightarrow> nat \<Rightarrow> error + bool" where
  \<comment> \<open>what the test of the loop evaluates to once \<open>k\<close> check intervals have passed\<close>
  "pollAfter d s k = fst (otpStillVisible d (s\<lparr>world := (elapse d checkInterval ^^ k) (world s)\<rparr>))"

definition afterInterval :: "'w driver \<Rightarrow> int \<Rightarrow> 'w state \<Rightarrow> 'w state" where
  \<comment> \<open>the state after one more round of the loop that started with \<open>waitedTime\<close>\<close>
  "afterInterval d waitedTime s =
     (let s1 = emit (Delay checkInterval) (s\<lparr>world := elapse d checkInterval (world s)\<rparr>) in
      if (waitedTime + checkInterval) mod 10000 = 0 then
        emit (Log Info (''Still waiting for OTP verification... (''
                        @ showNat (nat ((waitedTime + checkInterval) div 1000)) @ ''s)'')) s1
      else s1)"

definition otpCompleted :: event where
  "otpCompleted = Log Success ''OTP verification appears to be completed''"

definition timeoutLogged :: "'w state \<Rightarrow> 'w state" where
  \<comment> \<open>the two lines logged when the wait has reached \<open>maxWaitTime\<close>\<close>
  "timeoutLogged s =
     s\<lparr>trace := trace s @
         [Log Warning ''Timeout waiting for OTP verification'',
          Log Info ''Please complete the verification manually and the bot will continue'']\<rparr>"

section \<open>Concrete browsers, for the examples\<close>

text \<open>
  A browser state that only counts the delays, and a driver on it in which every
  command succeeds and every query finds nothing. The examples change single fields.
\<close>

definition calmDriver :: "nat driver" where
  "calmDriver =
     \<lparr> perform = (\<lambda>a w. (Inr (), w)),
       elapse = (\<lambda>ms w. w + 1),
       queryOne = (\<lambda>sel w. Inr None),
       queryAll = (\<lambda>sel w. Inr []),
       queryXPath = (\<lambda>xp w. Inr []),
       evalText = (\<lambda>sel w. Inr []),
       evaluateError = (\<lambda>w. None),
       docHas = (\<lambda>sel w. False),
       docOuterHTML = (\<lambda>sel w. None),
       property = (\<lambda>e a w. Inr []),
       maxLength = (\<lambda>e w. Inr (- 1)),
       now = (\<lambda>w. w),
       isoTime = (\<lambda>w. ''2025-08-17T08:00:00.000Z'') \<rparr>"

definition freshState :: "nat state" where
  "freshState =
     \<lparr> world = 0, trace = [], browser = False, page = False, isLoggedIn = False,
       vehicleAdded = False, isRunning = False \<rparr>"

definition defaultConfig :: config where
  \<comment> \<open>the configuration when no variable of the environment is set\<close>
  "defaultConfig =
     loadConfig \<lparr> LICENSE_PLATE = None, PROVINCE = None, VEHICLE_COLOR = None,
       VEHICLE_MAKE = None, VEHICLE_MODEL = None, PASS_TYPE = None, PREFERRED_DATE = None,
       HEADLESS = None, DELAY_BETWEEN_ACTIONS = None \<rparr>"

definition detachedDriver :: "nat driver" where
  \<comment> \<open>every element is found and visible, and every \<open>page.click\<close> is rejected\<close>
  "detachedDriver =
     calmDriver
       \<lparr> perform := (\<lambda>a w. case a of
                              Click sel \<Rightarrow> (Inl (Error ''Node is detached from document''), w)
                            | _ \<Rightarrow> (Inr (), w)),
         queryOne := (\<lambda>sel w. Inr (Some 0)) \<rparr>"

definition fieldlessDriver :: "nat driver" where
  \<comment> \<open>every element is visible, and no field can be filled or selected\<close>
  "fieldlessDriver =
     calmDriver
       \<lparr> perform := (\<lambda>a w. case a of
                              Focus sel \<Rightarrow> (Inl (Error ''Node is not focusable''), w)
                            | Select sel v \<Rightarrow> (Inl (Error ''Element is not a <select> element''), w)
                            | _ \<Rightarrow> (Inr (), w)),
         queryOne := (\<lambda>sel w. Inr (Some 0)) \<rparr>"

definition otpDriver :: "nat driver" where
  \<comment> \<open>the verification form disappears when three delays have passed\<close>
  "otpDriver = calmDriver \<lparr> docHas := (\<lambda>sel w. w < 3) \<rparr>"

definition stuckDriver :: "nat driver" where
  \<comment> \<open>four inputs and a button are on the page, and the verification form never disappears\<close>
  "stuckDriver =
     calmDriver
       \<lparr> docHas := (\<lambda>sel w. True),
         queryAll := (\<lambda>sel w. Inr [0, 1, 2, 3]),
         queryOne := (\<lambda>sel w. Inr (Some 0)) \<rparr>"

definition halfDayConfig :: config where
  \<comment> \<open>the configuration when only \<open>PASS_TYPE=half_day\<close> is set\<close>
  "halfDayConfig =
     loadConfig \<lparr> LICENSE_PLATE = None, PROVINCE = None, VEHICLE_COLOR = None,
       VEHICLE_MAKE = None, VEHICLE_MODEL = None, PASS_TYPE = Some ''half_day'',
       PREFERRED_DATE = None, HEADLESS = None, DELAY_BETWEEN_ACTIONS = None \<rparr>"

definition passCardsDriver :: "nat driver" where
  \<comment> \<open>two pass cards: element 0 reads \<open>Half-day Pass\<close>, element 1 reads \<open>All Day Pass\<close>\<close>
  "passCardsDriver =
     calmDriver
       \<lparr> queryAll := (\<lambda>sel w. if sel = ''.gridCard, .cardRow .gridCard'' then Inr [0, 1] else Inr []),
         property := (\<lambda>e a w. if e = 0 then Inr ''Half-day Pass'' else Inr ''All Day Pass'') \<rparr>"

section \<open>The tests applied by the stages\<close>

definition cardMatches :: "'w driver \<Rightarrow> config \<Rightarrow> 'w \<Rightarrow> elem \<Rightarrow> bool" where
  \<comment> \<open>the test that \<open>selectPassType\<close> applies to a card; a card whose text cannot be read
      is passed over\<close>
  "cardMatches d cfg w cardEl =
     (case property d cardEl TextContent w of
        Inl e \<Rightarrow> False
      | Inr cardText \<Rightarrow>
          (passType cfg = ''all_day''
             \<and> (stringIncludes cardText ''All Day Pass'' \<or> stringIncludes cardText ''All-day Pass''))
          \<or> (passType cfg = ''half_day''
             \<and> (stringIncludes cardText ''Half Day Pass'' \<or> stringIncludes cardText ''Half-day Pass'')))"

subsection \<open>The trace of the click primitive\<close>

text \<open>
  How an attempt of \<open>clickElement\<close> fails: the wait for the target to be visible fails
  (\<open>Invisible ok\<close>, where \<open>ok\<close> tells whether \<open>waitForSelector\<close> itself had succeeded), or
  the browser rejects the click (\<open>Rejected e\<close>). \<open>failedAttempt sel attempt f\<close> is what such
  an attempt adds to the trace, \<open>errorOf sel f\<close> the error it ends with, and
  \<open>retryTrace sel attempt fs\<close> the trace of consecutive failed attempts, numbered from
  \<open>attempt\<close>, each followed by the delay of one second.
\<close>

datatype failure = Invisible bool | Rejected error

fun errorOf :: "selector \<Rightarrow> failure \<Rightarrow> error" where
  "errorOf sel (Invisible ok) = Error (''Element not visible: '' @ sel)"
| "errorOf sel (Rejected e) = e"

fun failedAttempt :: "selector \<Rightarrow> nat \<Rightarrow> failure \<Rightarrow> event list" where
  "failedAttempt sel attempt (Invisible ok) =
     [waitEvent sel ok,
      Log Warning (''Click attempt '' @ showNat attempt @ '' failed for '' @ sel @ '': ''
                   @ ''Element not visible: '' @ sel)]"
| "failedAttempt sel attempt (Rejected e) =
     [waitEvent sel True, clickEvent sel False,
      Log Warning (''Click attempt '' @ showNat attempt @ '' failed for '' @ sel @ '': ''
                   @ message e)]"

fun retryTrace :: "selector \<Rightarrow> nat \<Rightarrow> failure list \<Rightarrow> event list" where
  "retryTrace sel attempt [] = []"
| "retryTrace sel attempt (f # fs) =
     failedAttempt sel attempt f @ [Delay 1000] @ retryTrace sel (attempt + 1) fs"

definition clickedTrace :: "selector \<Rightarrow> event list" where
  \<comment> \<open>what a successful attempt adds to the trace\<close>
  "clickedTrace sel =
     [waitEvent sel True, clickEvent sel True, Log Success (''Clicked element: '' @ sel)]"

definition fromBrowser :: "'w driver \<Rightarrow> selector \<Rightarrow> failure \<Rightarrow> bool" where
  \<comment> \<open>the error of a rejected click is one that \<open>page.click\<close> raises\<close>
  "fromBrowser d sel f =
     (case f of Invisible ok \<Rightarrow> True
              | Rejected e \<Rightarrow> (\<exists>w0 w1. perform d (Click sel) w0 = (Inl e, w1)))"

subsection \<open>The traces of the field operations\<close>




definition submitSelectors :: "config \<Rightarrow> selector list" where
  \<comment> \<open>\<open>submitSelectors\<close> of \<open>handleOTPVerification\<close>\<close>
  \<open>submitSelectors cfg =
     [otpSubmitBtn (selectors cfg), ''.themeBtn.button'', ''button[type="submit"]'',
      ''a.themeBtn.button'']\<close>

definition timedOutWorld :: "'w driver \<Rightarrow> 'w \<Rightarrow> 'w" where
  \<comment> \<open>the browser once the wait has used up \<open>maxWaitTime\<close> in steps of \<open>checkInterval\<close>\<close>
  "timedOutWorld d w = (elapse d checkInterval ^^ nat (maxWaitTime div checkInterval)) w"

subsection \<open>Clicks and warnings of a stage\<close>

fun clicked :: "event list \<Rightarrow> elem list" where
  \<comment> \<open>the elements on which \<open>click\<close> was called, in order\<close>
  "clicked [] = []"
| "clicked (Act (ElemClick e n) ok # es) = e # clicked es"
| "clicked (e # es) = clicked es"

fun warnings :: "event list \<Rightarrow> string list" where
  \<comment> \<open>the warnings logged, in order\<close>
  "warnings [] = []"
| "warnings (Log Warning msg # es) = msg # warnings es"
| "warnings (e # es) = warnings es"

definition does ::
  "string \<Rightarrow> 'w \<Rightarrow> ('w, 'a) prog \<Rightarrow> 'a \<Rightarrow> 'w \<Rightarrow> elem list \<Rightarrow> bool \<Rightarrow> bool" where
  \<comment> \<open>from every state whose browser is \<open>w\<close> the program returns \<open>x\<close> and leaves the browser
      in \<open>w'\<close>; it changes nothing else but the trace, clicks the elements \<open>cs\<close>, and logs
      the warning \<open>X\<close> if and only if \<open>b\<close>\<close>
  "does X w m x w' cs b =
     (\<forall>s. world s = w \<longrightarrow>
        (\<exists>es. m s = (Inr x, s\<lparr>world := w', trace := trace s @ es\<rparr>)
              \<and> clicked es = cs \<and> (X \<in> set (warnings es)) = b))"

definition targetDay :: "config \<Rightarrow> string option" where
  \<comment> \<open>the value that \<open>selectDateFromNewPicker\<close> gives to \<open>preferredDay\<close>\<close>
  "targetDay cfg =
     (if isMonthDay (preferredDate cfg) then secondPart (preferredDate cfg)
      else if isDayNumber (preferredDate cfg) then Some (preferredDate cfg)
      else None)"

definition notAvailable :: "config \<Rightarrow> string" where
  "notAvailable cfg =
     ''Preferred date '' @ preferredDate cfg @ '' not available in scheduler, selecting first available''"

definition noDateSelected :: string where
  "noDateSelected = ''No date was selected from scheduler, this might cause issues later''"

definition pickerShows ::
  "'w driver \<Rightarrow> 'w \<Rightarrow> elem list \<Rightarrow> (elem \<Rightarrow> string) \<Rightarrow> elem option \<Rightarrow> bool" where
  \<comment> \<open>in the browser state \<open>w\<close> the date picker shows the buttons \<open>buttons\<close>, at least one,
      with the texts \<open>label\<close>, and the button \<open>active\<close> is the active one; \<open>page.$\<close> finds the
      first of the buttons that \<open>page.$$\<close> finds\<close>
  "pickerShows d w buttons label active =
     (queryAll d schedulerDates w = Inr buttons \<and> buttons \<noteq> []
      \<and> queryOne d schedulerDates w = Inr (Some (hd buttons))
      \<and> (\<forall>b\<in>set buttons. property d b TextContent w = Inr (label b))
      \<and> queryOne d schedulerActiveDate w = Inr active
      \<and> (\<forall>a. active = Some a \<longrightarrow> property d a TextContent w = Inr (label a)))"

definition invalidFormat :: "config \<Rightarrow> string" where
  "invalidFormat cfg =
     ''Invalid date format: '' @ preferredDate cfg @ ''. Expected MM/DD or just day number.''"

definition watched :: "config \<Rightarrow> string \<Rightarrow> bool" where
  \<comment> \<open>the two warnings of the date stage that the properties are about\<close>
  "watched cfg X = (X = notAvailable cfg \<or> X = noDateSelected)"

definition pickerEmpty :: "'w driver \<Rightarrow> bool" where
  \<comment> \<open>the page never shows a date button\<close>
  "pickerEmpty d =
     (\<forall>w. queryAll d schedulerDates w = Inr [] \<and> queryAll d schedulerDatesAlt w = Inr []
          \<and> queryOne d schedulerDates w = Inr None \<and> queryOne d schedulerDatesAlt w = Inr None
          \<and> queryOne d schedulerActiveDate w = Inr None)"

definition afterShot :: "'w driver \<Rightarrow> string \<Rightarrow> 'w \<Rightarrow> 'w" where
  \<comment> \<open>the browser after the screenshot taken for debugging, whether it was saved or not\<close>
  "afterShot d prefix w =
     snd (perform d (Screenshot (prefix @ showNat (now d w) @ ''.png'') False) w)"

section \<open>Reasoning about programs\<close>

lemmas prog_defs = return_def throw_def andThen_def thenDo_def tryCatch_def tryFinally_def
  whenDo_def command_def query_def getState_def modify_def emit_def
  logSuccess_def logWarning_def logError_def logStep_def logCompletion_def logInfo_def delay_def

subsection \<open>keeps\<close>

lemma keeps_return: "reflp R \<Longrightarrow> keeps R (return x)"
  by (auto simp: keeps_def return_def reflp_def)

lemma keeps_throw: "reflp R \<Longrightarrow> keeps R (throw e)"
  by (auto simp: keeps_def throw_def reflp_def)

lemma keeps_query: "reflp R \<Longrightarrow> keeps R (query q)"
  by (auto simp: keeps_def query_def reflp_def)

lemma keeps_getState: "reflp R \<Longrightarrow> keeps R (getState f)"
  by (auto simp: keeps_def getState_def reflp_def)

lemma keeps_andThen:
  "transp R \<Longrightarrow> keeps R m \<Longrightarrow> (\<And>x. keeps R (f x)) \<Longrightarrow> keeps R (andThen m f)"
  unfolding keeps_def andThen_def
  by (auto split: prod.splits sum.splits) (meson transpD)

lemma keeps_thenDo:
  "transp R \<Longrightarrow> keeps R m \<Longrightarrow> keeps R n \<Longrightarrow> keeps R (thenDo m n)"
  unfolding thenDo_def by (rule keeps_andThen)

lemma keeps_tryCatch:
  "transp R \<Longrightarrow> keeps R m \<Longrightarrow> (\<And>e. keeps R (h e)) \<Longrightarrow> keeps R (tryCatch m h)"
  unfolding keeps_def tryCatch_def
  by (auto split: prod.splits sum.splits) (meson transpD)

lemma keeps_tryFinally:
  "transp R \<Longrightarrow> keeps R m \<Longrightarrow> keeps R fin \<Longrightarrow> keeps R (tryFinally m fin)"
  unfolding keeps_def tryFinally_def
  by (auto split: prod.splits sum.splits) (meson transpD)+

lemma keeps_whenDo: "reflp R \<Longrightarrow> keeps R m \<Longrightarrow> keeps R (whenDo b m)"
  by (simp add: whenDo_def keeps_return)

lemma keeps_if: "keeps R m \<Longrightarrow> keeps R n \<Longrightarrow> keeps R (if b then m else n)"
  by simp

lemma keeps_case_option:
  "keeps R m \<Longrightarrow> (\<And>x. keeps R (f x)) \<Longrightarrow> keeps R (case v of None \<Rightarrow> m | Some x \<Rightarrow> f x)"
  by (cases v) simp_all

lemma keeps_case_list:
  "keeps R m \<Longrightarrow> (\<And>x xs. keeps R (f x xs)) \<Longrightarrow> keeps R (case v of [] \<Rightarrow> m | x # xs \<Rightarrow> f x xs)"
  by (cases v) simp_all

lemma keeps_modify: "(\<And>s. R s (f s)) \<Longrightarrow> keeps R (modify f)"
  by (auto simp: keeps_def modify_def)

lemma keeps_command:
  "(\<And>s w ok. R s (emit (Act a ok) (s\<lparr>world := w\<rparr>))) \<Longrightarrow> keeps R (command d a)"
  by (auto simp: keeps_def command_def split: prod.splits sum.splits)

subsection \<open>grows\<close>

lemma reflp_grows: "reflp (grows P)"
  by (simp add: reflp_def grows_def)

lemma transp_grows: "transp (grows P)"
  by (auto simp: transp_def grows_def)

lemma grows_emit: "P e \<Longrightarrow> grows P s (emit e (s\<lparr>world := w\<rparr>))"
  by (simp add: grows_def emit_def)

lemma grows_emit': "P e \<Longrightarrow> grows P s (emit e s)"
  by (simp add: grows_def emit_def)


lemmas keeps_grows_intros =
  keeps_return [OF reflp_grows] keeps_throw [OF reflp_grows] keeps_query [OF reflp_grows]
  keeps_getState [OF reflp_grows] keeps_andThen [OF transp_grows] keeps_thenDo [OF transp_grows]
  keeps_tryCatch [OF transp_grows] keeps_tryFinally [OF transp_grows]
  keeps_whenDo [OF reflp_grows] keeps_if keeps_case_option keeps_case_list

lemma quiet_logSuccess: "P (Log Success msg) \<Longrightarrow> keeps (grows P) (logSuccess msg)"
  unfolding logSuccess_def by (intro keeps_modify grows_emit')

lemma quiet_logWarning: "P (Log Warning msg) \<Longrightarrow> keeps (grows P) (logWarning msg)"
  unfolding logWarning_def by (intro keeps_modify grows_emit')

lemma quiet_logStep: "P (Log Step msg) \<Longrightarrow> keeps (grows P) (logStep msg)"
  unfolding logStep_def by (intro keeps_modify grows_emit')

lemma quiet_logCompletion: "P (Log Completion msg) \<Longrightarrow> keeps (grows P) (logCompletion msg)"
  unfolding logCompletion_def by (intro keeps_modify grows_emit')

lemma quiet_logInfo: "P (Log Info msg) \<Longrightarrow> keeps (grows P) (logInfo msg)"
  unfolding logInfo_def by (intro keeps_modify grows_emit')

lemma quiet_logError_Some:
  "P (Log Failure (msg @ '': '' @ message e)) \<Longrightarrow> keeps (grows P) (logError msg (Some e))"
  unfolding logError_def by (simp, intro keeps_modify grows_emit')

lemma quiet_logError_None: "P (Log Failure msg) \<Longrightarrow> keeps (grows P) (logError msg None)"
  unfolding logError_def by (simp, intro keeps_modify grows_emit')

lemma quiet_command: "P (Act a True) \<Longrightarrow> P (Act a False) \<Longrightarrow> keeps (grows P) (command d a)"
  by (rule keeps_command) (case_tac ok; simp add: grows_emit)

lemma quiet_delay: "P (Delay ms) \<Longrightarrow> keeps (grows P) (delay d ms)"
  unfolding delay_def by (intro keeps_modify grows_emit)

lemma quiet_modify: "(\<And>s. trace (f s) = trace s) \<Longrightarrow> keeps (grows P) (modify f)"
  by (rule keeps_modify) (simp add: grows_def)

lemmas quiet_intros = keeps_grows_intros quiet_logSuccess quiet_logWarning quiet_logStep
  quiet_logCompletion quiet_logInfo quiet_logError_Some quiet_logError_None quiet_command
  quiet_delay quiet_modify

lemma benign_simps [simp]:
  "benign (Act a ok)" "benign (Delay ms)" "benign (Log Success m)" "benign (Log Warning m)"
  "benign (Log Completion m)" "benign (Log Info m)"
  by (simp_all add: benign_def checkoutStep_def soldOutLog_def)

lemma benign_Step: "benign (Log Step m) = (m \<noteq> ''Completing checkout'')"
  by (simp add: benign_def checkoutStep_def soldOutLog_def)

lemma benign_Failure:
  "benign (Log Failure m) = (m \<noteq> ''Failed to add to cart: Pass is sold out for the selected date'')"
  by (simp add: benign_def checkoutStep_def soldOutLog_def)

lemma benign_waitForElementVisible: "keeps (grows benign) (waitForElementVisible d sel)"
  unfolding waitForElementVisible_def by (intro quiet_intros; simp)

lemma benign_clickAttempt: "keeps (grows benign) (clickAttempt d sel)"
  unfolding clickAttempt_def by (intro quiet_intros benign_waitForElementVisible; simp)

lemma clickElementFrom_unfold:
  "clickElementFrom d sel maxRetries attempt =
     (if attempt \<le> maxRetries then
        tryCatch
          (clickAttempt d sel)
          (\<lambda>error.
             thenDo (logWarning (''Click attempt '' @ showNat attempt @ '' failed for '' @ sel
                                 @ '': '' @ message error))
               (if attempt = maxRetries then throw error
                else thenDo (delay d 1000) (clickElementFrom d sel maxRetries (attempt + 1))))
      else return False)"
  by (rule ext) (simp add: clickElementFrom.simps)

lemma benign_clickElementFrom: "keeps (grows benign) (clickElementFrom d sel maxRetries attempt)"
proof (induction "maxRetries + 1 - attempt" arbitrary: attempt)
  case 0
  then show ?case
    by (subst clickElementFrom_unfold) (simp add: keeps_grows_intros)
next
  case (Suc n)
  then have "keeps (grows benign) (clickElementFrom d sel maxRetries (attempt + 1))"
    by simp
  then show ?case
    by (subst clickElementFrom_unfold) (intro quiet_intros benign_clickAttempt; simp)
qed

lemma benign_clickElement: "keeps (grows benign) (clickElement d sel maxRetries)"
  unfolding clickElement_def by (rule benign_clickElementFrom)

lemma benign_fillInput: "keeps (grows benign) (fillInput d sel text)"
  unfolding fillInput_def
  by (intro quiet_intros benign_waitForElementVisible; simp add: benign_Failure)

lemma benign_takeScreenshot: "keeps (grows benign) (takeScreenshot d filename)"
  unfolding takeScreenshot_def Let_def
  by (intro quiet_intros; simp add: benign_Failure)

lemma benign_passCardLoop: "keeps (grows benign) (passCardLoop d cfg cards)"
  by (induction cards) (auto intro!: quiet_intros simp: Let_def)

lemma benign_selectPassType: "keeps (grows benign) (selectPassType d cfg)"
  unfolding selectPassType_def
  by (intro quiet_intros benign_passCardLoop; simp add: benign_Failure benign_Step)

subsection \<open>Running a step\<close>

lemma thenDo_modify: "thenDo (modify f) n s = n (f s)"
  by (simp add: thenDo_def andThen_def modify_def)

lemma andThen_modify: "andThen (modify f) g s = g () (f s)"
  by (simp add: andThen_def modify_def)

lemma andThen_query:
  "andThen (query q) g s = (case q (world s) of Inl e \<Rightarrow> (Inl e, s) | Inr x \<Rightarrow> g x s)"
  by (simp add: andThen_def query_def split: sum.splits)

lemma andThen_getState: "andThen (getState f) g s = g (f s) s"
  by (simp add: andThen_def getState_def)

lemma andThen_return: "andThen (return x) g s = g x s"
  by (simp add: andThen_def return_def)

lemma thenDo_return: "thenDo (return x) n s = n s"
  by (simp add: thenDo_def andThen_def return_def)

lemma andThen_throw: "andThen (throw e) g s = (Inl e, s)"
  by (simp add: andThen_def throw_def)

lemma thenDo_throw: "thenDo (throw e) n s = (Inl e, s)"
  by (simp add: thenDo_def andThen_def throw_def)

lemmas log_defs = logSuccess_def logWarning_def logError_def logStep_def logCompletion_def
  logInfo_def delay_def

lemmas run_simps = thenDo_modify andThen_modify andThen_query andThen_getState andThen_return
  thenDo_return andThen_throw thenDo_throw

subsection \<open>The click primitive\<close>

lemma waitForElementVisible_run:
  "waitForElementVisible d sel s =
     (case perform d (WaitForSelector sel Visible 10000) (world s) of
        (Inl e, w) \<Rightarrow> (Inl (Error (''Element not visible: '' @ sel)),
                        emit (waitEvent sel False) (s\<lparr>world := w\<rparr>))
      | (Inr u, w) \<Rightarrow>
          (case queryOne d sel w of
             Inl e \<Rightarrow> (Inl (Error (''Element not visible: '' @ sel)),
                        emit (waitEvent sel True) (s\<lparr>world := w\<rparr>))
           | Inr x \<Rightarrow> (Inr x, emit (waitEvent sel True) (s\<lparr>world := w\<rparr>))))"
  by (simp add: waitForElementVisible_def tryCatch_def thenDo_def andThen_def command_def
      query_def throw_def waitEvent_def emit_def split: prod.splits sum.splits)

lemma clickAttempt_run:
  "clickAttempt d sel s =
     (case waitForElementVisible d sel s of
        (Inl e, s1) \<Rightarrow> (Inl e, s1)
      | (Inr x, s1) \<Rightarrow>
          (case perform d (Click sel) (world s1) of
             (Inl e, w) \<Rightarrow> (Inl e, emit (clickEvent sel False) (s1\<lparr>world := w\<rparr>))
           | (Inr u, w) \<Rightarrow>
               (Inr True, emit (Log Success (''Clicked element: '' @ sel))
                            (emit (clickEvent sel True) (s1\<lparr>world := w\<rparr>)))))"
  by (simp add: clickAttempt_def thenDo_def andThen_def command_def logSuccess_def modify_def
      return_def clickEvent_def split: prod.splits sum.splits)

lemma clickAttempt_cases:
  assumes "clickAttempt d sel s = (r, s')"
  obtains
    (clicked) "r = Inr True"
      "trace s' = trace s @ [waitEvent sel True, clickEvent sel True,
                             Log Success (''Clicked element: '' @ sel)]"
  | (invisible) ok where "r = Inl (Error (''Element not visible: '' @ sel))"
      "trace s' = trace s @ [waitEvent sel ok]"
  | (clickFailed) e w0 w1 where "r = Inl e" "perform d (Click sel) w0 = (Inl e, w1)"
      "trace s' = trace s @ [waitEvent sel True, clickEvent sel False]"
  using assms unfolding clickAttempt_run waitForElementVisible_run
  by (auto simp: emit_def split: prod.splits sum.splits)


subsection \<open>The trace of the click primitive\<close>

lemma clickAttempt_failure:
  assumes "clickAttempt d sel s = (r, s')"
  shows "(r = Inr True \<and> trace s' = trace s @ clickedTrace sel)
       \<or> (\<exists>f. r = Inl (errorOf sel f) \<and> fromBrowser d sel f
              \<and> (\<forall>attempt. trace s' @ [Log Warning (''Click attempt '' @ showNat attempt
                     @ '' failed for '' @ sel @ '': '' @ message (errorOf sel f))]
                   = trace s @ failedAttempt sel attempt f))"
  using assms
proof (cases rule: clickAttempt_cases)
  case clicked
  then show ?thesis by (simp add: clickedTrace_def)
next
  case (invisible ok)
  then show ?thesis
    by (intro disjI2 exI [of _ "Invisible ok"]) (simp add: fromBrowser_def)
next
  case (clickFailed e w0 w1)
  then show ?thesis
    by (intro disjI2 exI [of _ "Rejected e"]) (auto simp: fromBrowser_def)
qed

lemma clickElementFrom_trace:
  assumes "clickElementFrom d sel maxRetries attempt s = (r, s')" "attempt \<le> maxRetries"
  shows "\<exists>fs. list_all (fromBrowser d sel) fs
          \<and> ((r = Inr True \<and> attempt + length fs \<le> maxRetries
               \<and> trace s' = trace s @ retryTrace sel attempt fs @ clickedTrace sel)
            \<or> (\<exists>f. fromBrowser d sel f \<and> attempt + length fs = maxRetries
               \<and> r = Inl (errorOf sel f)
               \<and> trace s' = trace s @ retryTrace sel attempt fs @ failedAttempt sel maxRetries f))"
  using assms
proof (induction "maxRetries + 1 - attempt" arbitrary: attempt s)
  case 0
  then show ?case by simp
next
  case (Suc n)
  obtain r1 s1 where att: "clickAttempt d sel s = (r1, s1)"
    by (cases "clickAttempt d sel s")
  let ?warn = "\<lambda>e. Log Warning (''Click attempt '' @ showNat attempt @ '' failed for '' @ sel
                                 @ '': '' @ message e)"
  have run: "clickElementFrom d sel maxRetries attempt s =
      (case r1 of
         Inr x \<Rightarrow> (Inr x, s1)
       | Inl e \<Rightarrow>
           if attempt = maxRetries then (Inl e, emit (?warn e) s1)
           else clickElementFrom d sel maxRetries (attempt + 1)
                  (emit (Delay 1000) (emit (?warn e) s1\<lparr>world := elapse d 1000 (world s1)\<rparr>)))"
    using Suc.prems(2) att
    by (subst clickElementFrom.simps)
       (simp add: tryCatch_def thenDo_def andThen_def logWarning_def modify_def throw_def
          delay_def emit_def split: sum.splits)
  from clickAttempt_failure [OF att]
  consider (ok) "r1 = Inr True" "trace s1 = trace s @ clickedTrace sel"
    | (failed) f where "r1 = Inl (errorOf sel f)" "fromBrowser d sel f"
        "trace s1 @ [?warn (errorOf sel f)] = trace s @ failedAttempt sel attempt f"
    by blast
  then show ?case
  proof cases
    case ok
    with run Suc.prems show ?thesis
      by (intro exI [of _ "[]"]) simp
  next
    case (failed f)
    show ?thesis
    proof (cases "attempt = maxRetries")
      case True
      with failed run Suc.prems show ?thesis
        by (intro exI [of _ "[]"]) (auto simp: emit_def)
    next
      case False
      let ?s2 = "emit (Delay 1000) (emit (?warn (errorOf sel f)) s1\<lparr>world := elapse d 1000 (world s1)\<rparr>)"
      from False failed run Suc.prems
      have rec: "clickElementFrom d sel maxRetries (attempt + 1) ?s2 = (r, s')" by simp
      from False Suc.prems Suc.hyps(2)
      have "n = maxRetries + 1 - (attempt + 1)" "attempt + 1 \<le> maxRetries" by auto
      from Suc.hyps(1) [OF this(1) rec this(2)]
      obtain fs where fs: "list_all (fromBrowser d sel) fs"
        "(r = Inr True \<and> attempt + 1 + length fs \<le> maxRetries
               \<and> trace s' = trace ?s2 @ retryTrace sel (attempt + 1) fs @ clickedTrace sel)
            \<or> (\<exists>g. fromBrowser d sel g \<and> attempt + 1 + length fs = maxRetries
               \<and> r = Inl (errorOf sel g)
               \<and> trace s' = trace ?s2 @ retryTrace sel (attempt + 1) fs @ failedAttempt sel maxRetries g)"
        by blast
      have s2: "trace ?s2 = trace s @ failedAttempt sel attempt f @ [Delay 1000]"
        using failed(3) by (simp add: emit_def)
      from fs(1) fs(2) [unfolded s2] failed(2) show ?thesis
        by (intro exI [of _ "f # fs"]) auto
    qed
  qed
qed

subsection \<open>Outcomes that depend on the result\<close>

lemma yieldsD: "yields Q m \<Longrightarrow> m s = (r, s') \<Longrightarrow> Q s r s'"
  by (simp add: yields_def)


lemma yields_andThen_quiet:
  assumes "keeps R m" "\<And>x. yields Q (f x)"
    and "\<And>s s1 e. R s s1 \<Longrightarrow> Q s (Inl e) s1"
    and "\<And>s s1 r s'. R s s1 \<Longrightarrow> Q s1 r s' \<Longrightarrow> Q s r s'"
  shows "yields Q (andThen m f)"
  using assms unfolding yields_def keeps_def andThen_def
  by (auto split: prod.splits sum.splits) blast+





























subsection \<open>Filling and selecting\<close>

lemma yields_thenDo_final:
  assumes "yields (\<lambda>s r s'. Q r s') n" "\<And>e s'. Q (Inl e) s'"
  shows "yields (\<lambda>s r s'. Q r s') (thenDo m n)"
  using assms unfolding yields_def thenDo_def andThen_def
  by (auto split: prod.splits sum.splits)

lemma yields_logSuccess_True:
  "yields (\<lambda>s r s'. case r of Inr b \<Rightarrow> b \<and> last (trace s') = Log Success msg | Inl e \<Rightarrow> True)
     (thenDo (logSuccess msg) (return True))"
  by (simp add: yields_def thenDo_def andThen_def logSuccess_def modify_def return_def emit_def)

lemma tryCatch_logged_False:
  assumes "m s = (r1, s1)"
  shows "tryCatch m (\<lambda>error. thenDo (logError (msg error) None) (return False)) s =
           (case r1 of Inl e \<Rightarrow> (Inr False, emit (Log Failure (msg e)) s1) | Inr x \<Rightarrow> (Inr x, s1))"
  using assms
  by (simp add: tryCatch_def thenDo_def andThen_def logError_def modify_def return_def
      split: sum.splits)

lemma fillInput_run:
  "\<exists>b s'. fillInput d sel text s = (Inr b, s')
      \<and> (if b then last (trace s') = Log Success (''Filled input '' @ sel @ '' with: '' @ text)
          else \<exists>e. last (trace s') = Log Failure (''Failed to fill input '' @ sel @ '': '' @ message e))"
proof -
  let ?body = "thenDo (waitForElementVisible d sel)
       (thenDo (command d (Focus sel))
       (thenDo (command d (Clear sel))
       (thenDo (command d (Type sel text))
       (thenDo (logSuccess (''Filled input '' @ sel @ '' with: '' @ text))
               (return True)))))"
  obtain r1 s1 where run: "?body s = (r1, s1)" by (cases "?body s")
  have "yields (\<lambda>s r s'. case r of Inr b \<Rightarrow> b \<and> last (trace s') = Log Success (''Filled input '' @ sel @ '' with: '' @ text) | Inl e \<Rightarrow> True) ?body"
    by (intro yields_thenDo_final yields_logSuccess_True) simp_all
  from yieldsD [OF this run]
  have ok: "case r1 of Inr b \<Rightarrow> b \<and> last (trace s1) = Log Success (''Filled input '' @ sel @ '' with: '' @ text) | Inl e \<Rightarrow> True" .
  have "fillInput d sel text s =
      (case r1 of
         Inl e \<Rightarrow> (Inr False, emit (Log Failure (''Failed to fill input '' @ sel @ '': '' @ message e)) s1)
       | Inr x \<Rightarrow> (Inr x, s1))"
    unfolding fillInput_def using run by (rule tryCatch_logged_False)
  with ok show ?thesis
    by (cases r1) (auto simp: emit_def)
qed

lemma selectOption_run:
  "\<exists>b s'. selectOption d sel v s = (Inr b, s')
      \<and> (if b then last (trace s') = Log Success (''Selected option '' @ v @ '' from '' @ sel)
          else \<exists>e. last (trace s') = Log Failure (''Failed to select option from '' @ sel @ '': '' @ message e))"
proof -
  let ?body = "thenDo (waitForElementVisible d sel)
       (thenDo (command d (Select sel v))
       (thenDo (logSuccess (''Selected option '' @ v @ '' from '' @ sel))
               (return True)))"
  obtain r1 s1 where run: "?body s = (r1, s1)" by (cases "?body s")
  have "yields (\<lambda>s r s'. case r of Inr b \<Rightarrow> b \<and> last (trace s') = Log Success (''Selected option '' @ v @ '' from '' @ sel) | Inl e \<Rightarrow> True) ?body"
    by (intro yields_thenDo_final yields_logSuccess_True) simp_all
  from yieldsD [OF this run]
  have ok: "case r1 of Inr b \<Rightarrow> b \<and> last (trace s1) = Log Success (''Selected option '' @ v @ '' from '' @ sel) | Inl e \<Rightarrow> True" .
  have "selectOption d sel v s =
      (case r1 of
         Inl e \<Rightarrow> (Inr False, emit (Log Failure (''Failed to select option from '' @ sel @ '': '' @ message e)) s1)
       | Inr x \<Rightarrow> (Inr x, s1))"
    unfolding selectOption_def using run by (rule tryCatch_logged_False)
  with ok show ?thesis
    by (cases r1) (auto simp: emit_def)
qed


















lemma thenDo_raise: "m s = (Inl e, s1) \<Longrightarrow> thenDo m n s = (Inl e, s1)"
  by (simp add: thenDo_def andThen_def)


subsection \<open>The wait for the verification code\<close>

lemma otpWaitLoop_step:
  "waitedTime < maxWaitTime \<Longrightarrow>
   otpWaitLoop d waitedTime s =
     (case pollAfter d s 0 of
        Inl e \<Rightarrow> (Inl e, s)
      | Inr stillVisible \<Rightarrow>
          if stillVisible then otpWaitLoop d (waitedTime + checkInterval) (afterInterval d waitedTime s)
          else (Inr waitedTime, emit otpCompleted s))"
  by (subst otpWaitLoop.simps)
     (simp add: pollAfter_def afterInterval_def otpCompleted_def otpStillVisible_def query_def
        andThen_def thenDo_def whenDo_def logSuccess_def logInfo_def delay_def modify_def
        return_def Let_def split: option.splits)

lemma otpWaitLoop_stop:
  "\<not> waitedTime < maxWaitTime \<Longrightarrow> otpWaitLoop d waitedTime s = (Inr waitedTime, s)"
  by (subst otpWaitLoop.simps) (simp add: return_def)

lemma world_emit: "world (emit e s) = world s"
  by (simp add: emit_def)

lemma world_afterInterval:
  "world (afterInterval d waitedTime s) = elapse d checkInterval (world s)"
  by (simp add: afterInterval_def Let_def world_emit)

lemma pollAfter_afterInterval:
  "pollAfter d (afterInterval d waitedTime s) k = pollAfter d s (Suc k)"
  by (simp add: pollAfter_def otpStillVisible_def query_def world_afterInterval funpow_swap1
      cong: option.case_cong)

lemma trace_afterInterval:
  "\<exists>es. trace (afterInterval d waitedTime s) = trace s @ es \<and> totalDelay es = checkInterval
        \<and> otpCompleted \<notin> set es"
  by (simp add: afterInterval_def Let_def emit_def otpCompleted_def)

lemma totalDelay_append: "totalDelay (es @ fs) = totalDelay es + totalDelay fs"
  by (induction es rule: totalDelay.induct) simp_all

lemma emitted_append: "trace s' = trace s @ es \<Longrightarrow> emitted s s' = es"
  by (simp add: emitted_def)

lemma otpWaitLoop_completes:
  assumes "\<forall>j<k. pollAfter d s j = Inr True" "pollAfter d s k = Inr False"
    and "waitedTime + checkInterval * int k < maxWaitTime"
  shows "\<exists>s' es. otpWaitLoop d waitedTime s = (Inr (waitedTime + checkInterval * int k), s')
           \<and> trace s' = trace s @ es @ [otpCompleted]
           \<and> totalDelay es = checkInterval * int k \<and> otpCompleted \<notin> set es"
  using assms
proof (induction k arbitrary: s waitedTime)
  case 0
  then show ?case
    by (simp add: otpWaitLoop_step emit_def)
next
  case (Suc k)
  let ?s1 = "afterInterval d waitedTime s"
  from Suc.prems have lt: "waitedTime < maxWaitTime"
    by (simp add: checkInterval_def)
  from Suc.prems have first: "pollAfter d s 0 = Inr True" by simp
  have step: "otpWaitLoop d waitedTime s = otpWaitLoop d (waitedTime + checkInterval) ?s1"
    by (simp add: otpWaitLoop_step [OF lt] first)
  have "\<forall>j<k. pollAfter d ?s1 j = Inr True" "pollAfter d ?s1 k = Inr False"
    using Suc.prems by (simp_all add: pollAfter_afterInterval)
  moreover have "(waitedTime + checkInterval) + checkInterval * int k < maxWaitTime"
    using Suc.prems(3) by (simp add: algebra_simps)
  ultimately obtain s' es where rec:
    "otpWaitLoop d (waitedTime + checkInterval) ?s1 =
       (Inr ((waitedTime + checkInterval) + checkInterval * int k), s')"
    "trace s' = trace ?s1 @ es @ [otpCompleted]"
    "totalDelay es = checkInterval * int k" "otpCompleted \<notin> set es"
    using Suc.IH [of ?s1 "waitedTime + checkInterval"] by blast
  obtain es1 where es1: "trace ?s1 = trace s @ es1" "totalDelay es1 = checkInterval"
    "otpCompleted \<notin> set es1"
    using trace_afterInterval [of d waitedTime s] by blast
  show ?case
  proof (intro exI conjI)
    show "otpWaitLoop d waitedTime s = (Inr (waitedTime + checkInterval * int (Suc k)), s')"
      using step rec(1) by (simp add: algebra_simps)
    show "trace s' = trace s @ (es1 @ es) @ [otpCompleted]"
      using rec(2) es1(1) by simp
    show "totalDelay (es1 @ es) = checkInterval * int (Suc k)"
      using rec(3) es1(2) by (simp add: totalDelay_append algebra_simps)
    show "otpCompleted \<notin> set (es1 @ es)"
      using rec(4) es1(3) by simp
  qed
qed

lemma otpWaitLoop_times_out:
  assumes "\<forall>j<n. pollAfter d s j = Inr True"
    and "waitedTime + checkInterval * int n = maxWaitTime"
  shows "\<exists>s' es. otpWaitLoop d waitedTime s = (Inr maxWaitTime, s')
           \<and> trace s' = trace s @ es
           \<and> totalDelay es = checkInterval * int n \<and> otpCompleted \<notin> set es"
  using assms
proof (induction n arbitrary: s waitedTime)
  case 0
  then show ?case
    by (simp add: otpWaitLoop_stop)
next
  case (Suc n)
  let ?s1 = "afterInterval d waitedTime s"
  from Suc.prems have lt: "waitedTime < maxWaitTime"
    by (simp add: checkInterval_def)
  from Suc.prems have first: "pollAfter d s 0 = Inr True" by simp
  have step: "otpWaitLoop d waitedTime s = otpWaitLoop d (waitedTime + checkInterval) ?s1"
    by (simp add: otpWaitLoop_step [OF lt] first)
  have "\<forall>j<n. pollAfter d ?s1 j = Inr True"
    using Suc.prems by (simp_all add: pollAfter_afterInterval)
  moreover have "(waitedTime + checkInterval) + checkInterval * int n = maxWaitTime"
    using Suc.prems(2) by (simp add: algebra_simps)
  ultimately obtain s' es where rec:
    "otpWaitLoop d (waitedTime + checkInterval) ?s1 = (Inr maxWaitTime, s')"
    "trace s' = trace ?s1 @ es"
    "totalDelay es = checkInterval * int n" "otpCompleted \<notin> set es"
    using Suc.IH [of ?s1 "waitedTime + checkInterval"] by blast
  obtain es1 where es1: "trace ?s1 = trace s @ es1" "totalDelay es1 = checkInterval"
    "otpCompleted \<notin> set es1"
    using trace_afterInterval [of d waitedTime s] by blast
  show ?case
  proof (intro exI conjI)
    show "otpWaitLoop d waitedTime s = (Inr maxWaitTime, s')"
      using step rec(1) by simp
    show "trace s' = trace s @ (es1 @ es)"
      using rec(2) es1(1) by simp
    show "totalDelay (es1 @ es) = checkInterval * int (Suc n)"
      using rec(3) es1(2) by (simp add: totalDelay_append algebra_simps)
    show "otpCompleted \<notin> set (es1 @ es)"
      using rec(4) es1(3) by simp
  qed
qed

lemma otpWaitLoop_bounded:
  "waitedTime \<le> maxWaitTime \<Longrightarrow>
   \<exists>es. trace (snd (otpWaitLoop d waitedTime s)) = trace s @ es
        \<and> waitedTime + totalDelay es \<le> maxWaitTime + checkInterval"
proof (induction "nat (maxWaitTime - waitedTime)" arbitrary: waitedTime s rule: less_induct)
  case less
  show ?case
  proof (cases "waitedTime < maxWaitTime")
    case False
    with less.prems show ?thesis
      by (simp add: otpWaitLoop_stop checkInterval_def)
  next
    case lt: True
    show ?thesis
    proof (cases "pollAfter d s 0")
      case (Inl e)
      with lt show ?thesis
        by (simp add: otpWaitLoop_step checkInterval_def)
    next
      case (Inr stillVisible)
      show ?thesis
      proof (cases stillVisible)
        case False
        with lt Inr show ?thesis
          by (simp add: otpWaitLoop_step checkInterval_def emit_def otpCompleted_def)
      next
        case True
        let ?s1 = "afterInterval d waitedTime s"
        from lt have "nat (maxWaitTime - (waitedTime + checkInterval)) < nat (maxWaitTime - waitedTime)"
          by (simp add: checkInterval_def)
        moreover have "waitedTime + checkInterval \<le> maxWaitTime \<or> maxWaitTime < waitedTime + checkInterval"
          by auto
        moreover
        { assume "maxWaitTime < waitedTime + checkInterval"
          then have "otpWaitLoop d (waitedTime + checkInterval) ?s1 = (Inr (waitedTime + checkInterval), ?s1)"
            by (simp add: otpWaitLoop_stop)
          then have "\<exists>es. trace (snd (otpWaitLoop d (waitedTime + checkInterval) ?s1)) = trace ?s1 @ es
              \<and> totalDelay es = 0"
            by simp }
        moreover
        { assume "waitedTime + checkInterval \<le> maxWaitTime"
          with less.hyps [of "waitedTime + checkInterval" ?s1] lt
          have "\<exists>es. trace (snd (otpWaitLoop d (waitedTime + checkInterval) ?s1)) = trace ?s1 @ es
              \<and> waitedTime + checkInterval + totalDelay es \<le> maxWaitTime + checkInterval"
            by (simp add: checkInterval_def) }
        ultimately obtain es where es:
          "trace (snd (otpWaitLoop d (waitedTime + checkInterval) ?s1)) = trace ?s1 @ es"
          "waitedTime + checkInterval + totalDelay es \<le> maxWaitTime + checkInterval"
          using lt by (auto simp: checkInterval_def)
        obtain es1 where es1: "trace ?s1 = trace s @ es1" "totalDelay es1 = checkInterval"
          using trace_afterInterval [of d waitedTime s] by blast
        have "otpWaitLoop d waitedTime s = otpWaitLoop d (waitedTime + checkInterval) ?s1"
          using lt Inr True by (simp add: otpWaitLoop_step)
        with es es1 have "trace (snd (otpWaitLoop d waitedTime s)) = trace s @ (es1 @ es)
            \<and> waitedTime + totalDelay (es1 @ es) \<le> maxWaitTime + checkInterval"
          by (simp add: totalDelay_append)
        then show ?thesis by blast
      qed
    qed
  qed
qed

lemma afterOtpWait_timeout:
  "maxWaitTime \<le> waitedTime \<Longrightarrow>
   afterOtpWait d cfg waitedTime s = submitOtp d cfg (timeoutLogged s)"
  by (simp add: afterOtpWait_def timeoutLogged_def thenDo_def andThen_def whenDo_def
      logWarning_def logInfo_def modify_def emit_def)

lemma otpWaitLoop_world:
  assumes "\<forall>j<n. pollAfter d s j = Inr True"
    and "waitedTime + checkInterval * int n = maxWaitTime"
  shows "world (snd (otpWaitLoop d waitedTime s)) = (elapse d checkInterval ^^ n) (world s)
       \<and> sameBot s (snd (otpWaitLoop d waitedTime s))"
  using assms
proof (induction n arbitrary: s waitedTime)
  case 0
  then show ?case
    by (simp add: otpWaitLoop_stop sameBot_def)
next
  case (Suc n)
  let ?s1 = "afterInterval d waitedTime s"
  from Suc.prems have lt: "waitedTime < maxWaitTime"
    by (simp add: checkInterval_def)
  from Suc.prems have first: "pollAfter d s 0 = Inr True" by simp
  have step: "otpWaitLoop d waitedTime s = otpWaitLoop d (waitedTime + checkInterval) ?s1"
    by (simp add: otpWaitLoop_step [OF lt] first)
  have "\<forall>j<n. pollAfter d ?s1 j = Inr True"
    using Suc.prems by (simp_all add: pollAfter_afterInterval)
  moreover have "(waitedTime + checkInterval) + checkInterval * int n = maxWaitTime"
    using Suc.prems(2) by (simp add: algebra_simps)
  ultimately have "world (snd (otpWaitLoop d (waitedTime + checkInterval) ?s1))
      = (elapse d checkInterval ^^ n) (world ?s1)
      \<and> sameBot ?s1 (snd (otpWaitLoop d (waitedTime + checkInterval) ?s1))"
    by (rule Suc.IH)
  moreover have "sameBot s ?s1"
    by (simp add: sameBot_def afterInterval_def Let_def emit_def)
  ultimately show ?case
    unfolding step by (simp add: world_afterInterval funpow_swap1 sameBot_def)
qed

lemma submitOtp_first:
  assumes "queryOne d (otpSubmitBtn (selectors cfg)) (world s) = Inr (Some b)"
    and "perform d (WaitForSelector (otpSubmitBtn (selectors cfg)) Visible 10000) (world s) = (Inr (), w3)"
    and "queryOne d (otpSubmitBtn (selectors cfg)) w3 = Inr x"
    and "perform d (Click (otpSubmitBtn (selectors cfg))) w3 = (Inr (), w4)"
  shows "submitOtp d cfg s =
     (Inr True,
      s\<lparr>world := elapse d (delayBetweenActions cfg) w4,
        trace := trace s @
          [waitEvent (otpSubmitBtn (selectors cfg)) True,
           clickEvent (otpSubmitBtn (selectors cfg)) True,
           Log Success (''Clicked element: '' @ otpSubmitBtn (selectors cfg)),
           Log Success (''OTP submitted using selector: '' @ otpSubmitBtn (selectors cfg)),
           Delay (delayBetweenActions cfg),
           Log Completion ''OTP verification completed'']\<rparr>)"
  using assms
  by (simp add: submitOtp_def elementExists_def clickElement_def
      clickElementFrom.simps clickAttempt_run waitForElementVisible_run
      emit_def tryCatch_def thenDo_def whenDo_def
      andThen_def logSuccess_def logCompletion_def query_def
      return_def modify_def delay_def waitEvent_def clickEvent_def)

lemma submitOtp_none:
  assumes "\<forall>sel\<in>set (submitSelectors cfg). queryOne d sel (world s) = Inr None"
  shows "submitOtp d cfg s = (Inl (Error ''Could not submit OTP''), s)"
  using assms
  by (simp add: submitOtp_def submitSelectors_def elementExists_def
      tryCatch_def thenDo_def whenDo_def andThen_def query_def return_def throw_def)

subsection \<open>The pass cards\<close>

lemma passCardLoop_none:
  "find (cardMatches d cfg (world s)) cards = None \<Longrightarrow> passCardLoop d cfg cards s = (Inr False, s)"
  by (induction cards)
     (auto simp: cardMatches_def andThen_def tryCatch_def query_def return_def Let_def
        split: sum.splits if_splits)

lemma passCardLoop_some:
  "find (cardMatches d cfg (world s)) cards = Some c \<Longrightarrow>
   perform d (ElemClick c 1) (world s) = (Inr (), w2) \<Longrightarrow>
   passCardLoop d cfg cards s =
     (Inr True, emit (Log Success (''Selected '' @ passType cfg @ '' pass''))
                  (emit (Act (ElemClick c 1) True) (s\<lparr>world := w2\<rparr>)))"
  by (induction cards)
     (auto simp: cardMatches_def andThen_def thenDo_def tryCatch_def query_def return_def Let_def
        command_def logSuccess_def modify_def
        split: sum.splits if_splits)

lemma selectPassType_start:
  assumes "queryAll d ''.gridCard, .cardRow .gridCard'' (elapse d 2000 (world s)) = Inr cards"
  shows "selectPassType d cfg s =
     tryCatch
       (andThen (passCardLoop d cfg cards) (\<lambda>passSelected.
        thenDo
          (whenDo (\<not> passSelected)
             (case cards of
                first # _ \<Rightarrow>
                  thenDo (command d (ElemClick first 1))
                         (logWarning ''Could not find specific pass type, selected first available'')
              | [] \<Rightarrow> throw (Error ''No pass cards found'')))
       (thenDo (delay d (delayBetweenActions cfg))
       (thenDo (logCompletion ''Pass type selected'')
               (return True)))))
       (\<lambda>error. thenDo (logError ''Failed to select pass type'' (Some error)) (throw error))
       (s\<lparr>world := elapse d 2000 (world s),
          trace := trace s @ [Log Step (''Selecting pass type: '' @ passType cfg), Delay 2000]\<rparr>)"
  using assms
  by (simp add: selectPassType_def tryCatch_def logStep_def delay_def run_simps emit_def)

subsection \<open>Stages that succeed\<close>

lemma clicked_append: "clicked (es @ fs) = clicked es @ clicked fs"
  by (induction es rule: clicked.induct) simp_all

lemma warnings_append: "warnings (es @ fs) = warnings es @ warnings fs"
  by (induction es rule: warnings.induct) simp_all

lemma does_weaken:
  "does X w m x0 w0 cs0 b0 \<Longrightarrow> x = x0 \<Longrightarrow> w' = w0 \<Longrightarrow> cs = cs0 \<Longrightarrow> b = b0 \<Longrightarrow>
   does X w m x w' cs b"
  by simp

lemma does_andThen:
  assumes "does X w m x w1 cs1 b1" "does X w1 (f x) y w2 cs2 b2"
  shows "does X w (andThen m f) y w2 (cs1 @ cs2) (b1 \<or> b2)"
  unfolding does_def
proof (intro allI impI)
  fix s :: "'a state"
  assume w: "world s = w"
  with assms(1) obtain es1 where 1: "m s = (Inr x, s\<lparr>world := w1, trace := trace s @ es1\<rparr>)"
    "clicked es1 = cs1" "(X \<in> set (warnings es1)) = b1"
    unfolding does_def by blast
  let ?s1 = "s\<lparr>world := w1, trace := trace s @ es1\<rparr>"
  have "world ?s1 = w1" by simp
  with assms(2) obtain es2 where 2: "f x ?s1 = (Inr y, ?s1\<lparr>world := w2, trace := trace ?s1 @ es2\<rparr>)"
    "clicked es2 = cs2" "(X \<in> set (warnings es2)) = b2"
    unfolding does_def by blast
  show "\<exists>es. andThen m f s = (Inr y, s\<lparr>world := w2, trace := trace s @ es\<rparr>)
          \<and> clicked es = cs1 @ cs2 \<and> (X \<in> set (warnings es)) = (b1 \<or> b2)"
    using 1 2 by (intro exI [of _ "es1 @ es2"]) (auto simp: andThen_def clicked_append warnings_append)
qed

lemma does_thenDo:
  "does X w m x w1 cs1 b1 \<Longrightarrow> does X w1 n y w2 cs2 b2 \<Longrightarrow>
   does X w (thenDo m n) y w2 (cs1 @ cs2) (b1 \<or> b2)"
  unfolding thenDo_def by (rule does_andThen)

lemma does_tryCatch:
  assumes "does X w m x w' cs b"
  shows "does X w (tryCatch m h) x w' cs b"
  unfolding does_def
proof (intro allI impI)
  fix s :: "'a state"
  assume "world s = w"
  with assms obtain es where "m s = (Inr x, s\<lparr>world := w', trace := trace s @ es\<rparr>)"
    "clicked es = cs" "(X \<in> set (warnings es)) = b"
    unfolding does_def by blast
  then show "\<exists>es. tryCatch m h s = (Inr x, s\<lparr>world := w', trace := trace s @ es\<rparr>)
      \<and> clicked es = cs \<and> (X \<in> set (warnings es)) = b"
    by (intro exI [of _ es]) (simp add: tryCatch_def)
qed

lemma does_return: "does X w (return x) x w [] False"
  unfolding does_def by (intro allI impI exI [of _ "[]"]) (simp add: return_def)

lemma does_query: "q w = Inr x \<Longrightarrow> does X w (query q) x w [] False"
  unfolding does_def by (intro allI impI exI [of _ "[]"]) (simp add: query_def)

lemma does_command:
  "perform d a w = (Inr (), w') \<Longrightarrow> does X w (command d a) () w' (clicked [Act a True]) False"
  unfolding does_def by (intro allI impI exI [of _ "[Act a True]"]) (simp add: command_def emit_def)

lemma does_delay: "does X w (delay d ms) () (elapse d ms w) [] False"
  unfolding does_def
  by (intro allI impI exI [of _ "[Delay ms]"]) (simp add: delay_def modify_def emit_def)

lemma does_emit: "clicked [e] = [] \<Longrightarrow> (X \<in> set (warnings [e])) = b \<Longrightarrow>
    does X w (modify (emit e)) () w [] b"
  unfolding does_def by (intro allI impI exI [of _ "[e]"]) (simp add: modify_def emit_def)

lemma does_log:
  "does X w (logInfo msg) () w [] False"
  "does X w (logSuccess msg) () w [] False"
  "does X w (logStep msg) () w [] False"
  "does X w (logCompletion msg) () w [] False"
  "does X w (logError msg None) () w [] False"
  "does X w (logWarning msg) () w [] (X = msg)"
  unfolding log_defs by (simp_all add: does_emit)

lemma does_trimmedText:
  "property d b TextContent w = Inr t \<Longrightarrow> does X w (trimmedText d b) (trim t) w [] False"
  unfolding trimmedText_def
  by (rule does_weaken, rule does_andThen, erule does_query, rule does_return) simp_all

lemmas does_intros = does_andThen does_thenDo does_tryCatch does_return does_delay does_log

lemma dateButtonLoop_none:
  assumes "\<forall>b\<in>set buttons. property d b TextContent w = Inr (label b)"
    and "find (\<lambda>x. trim (label x) = day) buttons = None"
  shows "does X w (dateButtonLoop d cfg day buttons) False w [] False"
  using assms
proof (induction buttons)
  case Nil
  show ?case by (simp add: does_return)
next
  case (Cons b buttons)
  from Cons.prems have ne: "trim (label b) \<noteq> day" and rest: "find (\<lambda>x. trim (label x) = day) buttons = None"
    by (auto split: if_splits)
  from Cons.prems have tb: "property d b TextContent w = Inr (label b)" by simp
  from Cons have ih: "does X w (dateButtonLoop d cfg day buttons) False w [] False"
    using rest by simp
  show ?case
    apply (simp only: dateButtonLoop.simps)
    apply (rule does_weaken)
        apply (rule does_andThen, rule does_trimmedText [OF tb])
        apply (rule does_thenDo, rule does_log)
        apply (subst if_not_P [OF ne])
        apply (rule ih)
       apply simp_all
    done
qed

lemma dateButtonLoop_some:
  assumes "\<forall>b\<in>set buttons. property d b TextContent w = Inr (label b)"
    and "find (\<lambda>x. trim (label x) = day) buttons = Some c"
    and "perform d (ElemClick c 1) w = (Inr (), w2)"
  shows "does X w (dateButtonLoop d cfg day buttons) True w2 [c] False"
  using assms
proof (induction buttons)
  case Nil
  then show ?case by simp
next
  case (Cons b buttons)
  from Cons.prems have tb: "property d b TextContent w = Inr (label b)" by simp
  show ?case
  proof (cases "trim (label b) = day")
    case True
    with Cons.prems have c: "c = b" by simp
    show ?thesis
      apply (simp only: dateButtonLoop.simps)
      apply (rule does_weaken)
          apply (rule does_andThen, rule does_trimmedText [OF tb])
          apply (rule does_thenDo, rule does_log)
          apply (subst if_P [OF True])
          apply (rule does_thenDo, rule does_log)
          apply (rule does_thenDo, rule does_command [OF Cons.prems(3) [unfolded c]])
          apply (rule does_thenDo, rule does_log)
          apply (rule does_return)
         apply (simp_all add: c)
      done
  next
    case False
    with Cons have ih: "does X w (dateButtonLoop d cfg day buttons) True w2 [c] False"
      by simp
    show ?thesis
      apply (simp only: dateButtonLoop.simps)
      apply (rule does_weaken)
          apply (rule does_andThen, rule does_trimmedText [OF tb])
          apply (rule does_thenDo, rule does_log)
          apply (subst if_not_P [OF False])
          apply (rule ih)
         apply simp_all
      done
  qed
qed

lemma secondPart_monthDay:
  assumes "isMonthDay p"
  shows "secondPart p = Some (drop 3 p)"
proof -
  from assms have "length p = 5" by (simp add: isMonthDay_def)
  then obtain a b c e f where p: "p = [a, b, c, e, f]"
    by (auto simp: length_Suc_conv eval_nat_numeral)
  with assms have "isDigit a" "isDigit b" "c = CHR ''/''" "isDigit e" "isDigit f"
    by (simp_all add: isMonthDay_def)
  then have "a \<noteq> CHR ''/''" "b \<noteq> CHR ''/''" "e \<noteq> CHR ''/''" "f \<noteq> CHR ''/''" "c = CHR ''/''"
    by (auto simp: isDigit_def)
  then show ?thesis
    by (simp add: p secondPart_def)
qed

lemma targetDay_truthy: "targetDay cfg = Some day \<Longrightarrow> truthy day"
  by (auto simp: targetDay_def truthy_def isDayNumber_def isMonthDay_def secondPart_monthDay
      split: if_splits)

lemma does_preferredDayOf:
  assumes "X \<noteq> ''Invalid date format: '' @ preferredDate cfg @ ''. Expected MM/DD or just day number.''"
  shows "does X w (preferredDayOf cfg) (targetDay cfg) w [] False"
proof (cases "isMonthDay (preferredDate cfg)")
  case True
  show ?thesis
    unfolding preferredDayOf_def targetDay_def Let_def
    apply (subst if_P [OF True])+
    apply (rule does_weaken, rule does_thenDo, rule does_log, rule does_return)
       apply simp_all
    done
next
  case False
  show ?thesis
  proof (cases "isDayNumber (preferredDate cfg)")
    case True
    show ?thesis
      unfolding preferredDayOf_def targetDay_def Let_def
      apply (subst if_not_P [OF False])+
      apply (subst if_P [OF True])+
      apply (rule does_weaken, rule does_thenDo, rule does_log, rule does_return)
         apply simp_all
      done
  next
    case nd: False
    show ?thesis
      unfolding preferredDayOf_def targetDay_def Let_def
      apply (subst if_not_P [OF False])+
      apply (subst if_not_P [OF nd])+
      apply (rule does_weaken, rule does_thenDo, rule does_log, rule does_return)
         apply (insert assms)
         apply simp_all
      done
  qed
qed

lemma does_waitForElementVisible:
  assumes "perform d (WaitForSelector sel Visible 10000) w = (Inr (), w0)"
    and "queryOne d sel w0 = Inr x"
  shows "does X w (waitForElementVisible d sel) x w0 [] False"
  unfolding waitForElementVisible_def
  apply (rule does_weaken, rule does_tryCatch, rule does_thenDo)
       apply (rule does_command [OF assms(1)])
      apply (rule does_query, rule assms(2))
     apply simp_all
  done

lemma does_availableDateTexts:
  assumes "\<forall>b\<in>set buttons. property d b TextContent w = Inr (label b)"
  shows "does X w (availableDateTexts d buttons) (map (\<lambda>b. trim (label b)) buttons) w [] False"
  using assms
proof (induction buttons)
  case Nil
  show ?case by (simp add: does_return)
next
  case (Cons b buttons)
  from Cons.prems have tb: "property d b TextContent w = Inr (label b)" by simp
  from Cons have ih: "does X w (availableDateTexts d buttons) (map (\<lambda>b. trim (label b)) buttons) w [] False"
    by simp
  show ?case
    apply (simp only: availableDateTexts.simps)
    apply (rule does_weaken)
        apply (rule does_andThen, rule does_trimmedText [OF tb])
        apply (rule does_andThen, rule ih)
        apply (rule does_return)
       apply simp_all
    done
qed

lemma does_schedulerDateButtons:
  assumes "queryAll d schedulerDates w = Inr buttons" "buttons \<noteq> []"
  shows "does X w (schedulerDateButtons d) buttons w [] False"
proof -
  from assms(2) have ne: "length buttons \<noteq> 0" by simp
  show ?thesis
    unfolding schedulerDateButtons_def whenDo_def
    apply (rule does_weaken)
        apply (rule does_andThen, rule does_query, rule assms(1))
        apply (subst if_not_P [OF ne])
        apply (rule does_andThen, rule does_return)
        apply (subst if_not_P [OF ne])
        apply (rule does_thenDo, rule does_return, rule does_return)
       apply simp_all
    done
qed

lemma does_selectPreferredDay_active:
  assumes "queryOne d schedulerActiveDate w = Inr (Some a)"
    and "property d a TextContent w = Inr (label a)"
    and "trim (label a) = day"
  shows "does X w (selectPreferredDay d cfg day buttons) True w [] False"
  unfolding selectPreferredDay_def
  apply (rule does_weaken)
      apply (rule does_thenDo, rule does_log)
      apply (rule does_andThen, rule does_query, rule assms(1))
      apply (simp only: option.case)
      apply (rule does_andThen)
       apply (rule does_andThen, rule does_trimmedText [OF assms(2)])
       apply (rule does_thenDo, rule does_log)
       apply (subst if_P [OF assms(3)])
       apply (rule does_thenDo, rule does_log, rule does_return)
      apply (simp only: not_True_eq_False if_False)
      apply (rule does_return)
     apply simp_all
  done

lemma does_selectPreferredDay_search:
  assumes "queryOne d schedulerActiveDate w = Inr active"
    and "\<forall>a. active = Some a \<longrightarrow> property d a TextContent w = Inr (label a) \<and> trim (label a) \<noteq> day"
    and "does X w (dateButtonLoop d cfg day buttons) r w2 cs False"
  shows "does X w (selectPreferredDay d cfg day buttons) r w2 cs False"
proof (cases active)
  case None
  show ?thesis
    unfolding selectPreferredDay_def
    apply (rule does_weaken)
        apply (rule does_thenDo, rule does_log)
        apply (rule does_andThen, rule does_query, rule assms(1) [unfolded None])
        apply (simp only: option.case)
        apply (rule does_andThen, rule does_return)
        apply (simp only: not_False_eq_True if_True)
        apply (rule does_thenDo, rule does_log)
        apply (rule assms(3))
       apply simp_all
    done
next
  case (Some a)
  with assms(2) have ta: "property d a TextContent w = Inr (label a)" and ne: "trim (label a) \<noteq> day"
    by simp_all
  show ?thesis
    unfolding selectPreferredDay_def
    apply (rule does_weaken)
        apply (rule does_thenDo, rule does_log)
        apply (rule does_andThen, rule does_query, rule assms(1) [unfolded Some])
        apply (simp only: option.case)
        apply (rule does_andThen)
         apply (rule does_andThen, rule does_trimmedText [OF ta])
         apply (rule does_thenDo, rule does_log)
         apply (subst if_not_P [OF ne])
         apply (rule does_thenDo, rule does_log, rule does_return)
        apply (simp only: not_False_eq_True if_True)
        apply (rule does_thenDo, rule does_log)
        apply (rule assms(3))
       apply simp_all
    done
qed

lemma does_selectFirstAvailableDate:
  assumes "queryOne d schedulerDates w = Inr (Some f)"
    and "perform d (ElemClick f 1) w = (Inr (), w2)"
    and "property d f TextContent w2 = Inr t"
  shows "does X w (selectFirstAvailableDate d dateSelected) True w2 [f] False"
  unfolding selectFirstAvailableDate_def
  apply (rule does_weaken)
      apply (rule does_thenDo, rule does_log)
      apply (rule does_andThen, rule does_query, rule assms(1))
      apply (simp only: option.distinct if_False)
      apply (rule does_andThen, rule does_return)
      apply (simp only: option.case)
      apply (rule does_thenDo, rule does_command [OF assms(2)])
      apply (rule does_andThen, rule does_trimmedText [OF assms(3)])
      apply (rule does_thenDo, rule does_log, rule does_return)
     apply simp_all
  done

lemma watched_neq:
  assumes "watched cfg X"
  shows "X \<noteq> invalidFormat cfg"
    "X \<noteq> ''Could not log scheduler HTML: '' @ m"
    "X \<noteq> ''Could not save screenshot: '' @ m"
    "X \<noteq> ''No dates found in scheduler, trying alternative selectors''"
  using assms by (auto simp: watched_def notAvailable_def noDateSelected_def invalidFormat_def)

lemma does_htmlLog:
  assumes "watched cfg X"
  shows "does X w
     (tryCatch
        (andThen (query (\<lambda>w. case evaluateError d w of
                                 Some e \<Rightarrow> Inl e
                               | None \<Rightarrow> Inr (case docOuterHTML d ''#scheduler_12196'' w of
                                                 Some html \<Rightarrow> html
                                               | None \<Rightarrow> ''Element not found'')))
           (\<lambda>schedulerHTML.
              logInfo (''Scheduler HTML: '' @ substring0 300 schedulerHTML @ ''...'')))
        (\<lambda>error. logWarning (''Could not log scheduler HTML: '' @ message error)))
     () w [] False"
proof (cases "evaluateError d w")
  case None
  show ?thesis
    apply (rule does_weaken, rule does_tryCatch)
        apply (rule does_andThen, rule does_query)
         apply (simp only: None option.case)
        apply (rule does_log)
       apply simp_all
    done
next
  case (Some e)
  show ?thesis
    unfolding does_def
    apply (intro allI impI)
    apply (rule_tac x = "[Log Warning (''Could not log scheduler HTML: '' @ message e)]" in exI)
    using watched_neq(2) [OF assms, of "message e"]
    apply (simp add: tryCatch_def andThen_def query_def Some logWarning_def modify_def emit_def)
    done
qed

lemma does_selectPreferredDate:
  assumes "watched cfg X"
    and "queryAll d schedulerDates w = Inr buttons" "buttons \<noteq> []"
    and "\<forall>b\<in>set buttons. property d b TextContent w = Inr (label b)"
    and "does X w (case targetDay cfg of
                     Some day \<Rightarrow> if truthy day then selectPreferredDay d cfg day buttons
                                 else return False
                   | None \<Rightarrow> return False) ds w2 cs False"
  shows "does X w (selectPreferredDate d cfg) ds w2 cs (\<not> ds \<and> X = notAvailable cfg)"
proof (cases ds)
  case True
  show ?thesis
    unfolding selectPreferredDate_def whenDo_def
    apply (rule does_weaken)
        apply (rule does_andThen, rule does_preferredDayOf)
         apply (rule watched_neq(1) [OF assms(1), unfolded invalidFormat_def])
        apply (rule does_andThen, rule does_schedulerDateButtons [OF assms(2,3)])
        apply (rule does_andThen, rule does_availableDateTexts [OF assms(4)])
        apply (rule does_thenDo, rule does_log)
        apply (rule does_andThen, rule assms(5))
        apply (simp only: True not_True_eq_False if_False)
        apply (rule does_thenDo, rule does_return, rule does_return)
       apply (simp_all add: True)
    done
next
  case False
  show ?thesis
    unfolding selectPreferredDate_def whenDo_def
    apply (rule does_weaken)
        apply (rule does_andThen, rule does_preferredDayOf)
         apply (rule watched_neq(1) [OF assms(1), unfolded invalidFormat_def])
        apply (rule does_andThen, rule does_schedulerDateButtons [OF assms(2,3)])
        apply (rule does_andThen, rule does_availableDateTexts [OF assms(4)])
        apply (rule does_thenDo, rule does_log)
        apply (rule does_andThen, rule assms(5))
        apply (simp only: False not_False_eq_True if_True)
        apply (rule does_thenDo, rule does_log, rule does_return)
       apply (simp_all add: False notAvailable_def)
    done
qed

lemma does_selectDate:
  assumes "watched cfg X"
    and "perform d (WaitForSelector ''#scheduler_12196 .dateMain'' Visible 10000) ws = (Inr (), w0)"
    and "queryOne d ''#scheduler_12196 .dateMain'' w0 = Inr x"
    and "truthy (preferredDate cfg)"
    and "does X (elapse d 1000 w0) (selectPreferredDate d cfg) ds1 w1 cs1 b1"
    and "does X w1 (if \<not> ds1 then selectFirstAvailableDate d ds1 else return ds1) True w2 cs2 b2"
  shows "does X ws (selectDateFromNewPicker d cfg) True (elapse d (delayBetweenActions cfg) w2)
           (cs1 @ cs2) (b1 \<or> b2)"
  unfolding selectDateFromNewPicker_def whenDo_def
  apply (rule does_weaken, rule does_tryCatch)
      apply (rule does_thenDo, rule does_log)
      apply (rule does_thenDo, rule does_waitForElementVisible [OF assms(2,3)])
      apply (rule does_thenDo, rule does_delay)
      apply (rule does_thenDo, rule does_htmlLog [OF assms(1)])
      apply (subst if_P [OF assms(4)])
      apply (rule does_andThen, rule assms(5))
      apply (simp only: assms(4) not_True_eq_False simp_thms)
      apply (rule does_andThen, rule assms(6))
      apply (rule does_thenDo, rule does_delay)
      apply (simp only: not_True_eq_False if_False)
      apply (rule does_thenDo, rule does_return)
      apply (rule does_thenDo, rule does_log, rule does_return)
     apply simp_all
  done

lemma does_debugShot:
  assumes "watched cfg X"
  shows "does X w
     (tryCatch
        (andThen (getState (\<lambda>s. now d (world s))) (\<lambda>t.
         thenDo (command d (Screenshot (prefix @ showNat t @ ''.png'') False))
                (logInfo ''Screenshot saved for debugging'')))
        (\<lambda>screenshotError.
           logWarning (''Could not save screenshot: '' @ message screenshotError)))
     () (afterShot d prefix w) [] False"
proof (cases "perform d (Screenshot (prefix @ showNat (now d w) @ ''.png'') False) w")
  case (Pair r w')
  show ?thesis
  proof (cases r)
    case (Inr u)
    with Pair show ?thesis
      unfolding does_def
      apply (intro allI impI)
      apply (rule_tac x = "[Act (Screenshot (prefix @ showNat (now d w) @ ''.png'') False) True,
                            Log Info ''Screenshot saved for debugging'']" in exI)
      apply (simp add: tryCatch_def andThen_def thenDo_def getState_def command_def logInfo_def
          modify_def emit_def afterShot_def)
      done
  next
    case (Inl e)
    with Pair show ?thesis
      unfolding does_def
      apply (intro allI impI)
      apply (rule_tac x = "[Act (Screenshot (prefix @ showNat (now d w) @ ''.png'') False) False,
                            Log Warning (''Could not save screenshot: '' @ message e)]" in exI)
      using watched_neq(3) [OF assms, of "message e"]
      apply (simp add: tryCatch_def andThen_def thenDo_def getState_def command_def logWarning_def
          modify_def emit_def afterShot_def)
      done
  qed
qed

lemma does_schedulerDateButtons_empty:
  assumes "watched cfg X" "pickerEmpty d"
  shows "does X w (schedulerDateButtons d) []
           (afterShot d ''logs/scheduler_date_selection_error_'' w) [] False"
proof -
  from assms(2) have q: "queryAll d schedulerDates w = Inr []" "queryAll d schedulerDatesAlt w = Inr []"
    by (simp_all add: pickerEmpty_def)
  show ?thesis
    unfolding schedulerDateButtons_def whenDo_def
    apply (rule does_weaken)
        apply (rule does_andThen, rule does_query, rule q(1))
        apply (simp only: list.size if_True refl)
        apply (rule does_andThen)
         apply (rule does_thenDo, rule does_log)
         apply (rule does_andThen, rule does_query, rule q(2))
         apply (simp only: list.size less_irrefl if_False)
         apply (rule does_return)
        apply (simp only: list.size if_True refl)
        apply (rule does_thenDo)
         apply (rule does_thenDo, rule does_log)
         apply (rule does_debugShot [OF assms(1)])
        apply (rule does_return)
       apply (insert watched_neq(4) [OF assms(1)])
       apply simp_all
    done
qed

subsection \<open>Runs on the concrete browsers\<close>

lemma trace_freshState: "trace freshState = []"
  by (simp add: freshState_def)

lemma detached_click_run:
  "clickElement detachedDriver ''#addToCart'' 3 freshState =
     (Inl (Error ''Node is detached from document''),
      freshState\<lparr>world := 2, trace :=
        [waitEvent ''#addToCart'' True, clickEvent ''#addToCart'' False,
         Log Warning ''Click attempt 1 failed for #addToCart: Node is detached from document'',
         Delay 1000,
         waitEvent ''#addToCart'' True, clickEvent ''#addToCart'' False,
         Log Warning ''Click attempt 2 failed for #addToCart: Node is detached from document'',
         Delay 1000,
         waitEvent ''#addToCart'' True, clickEvent ''#addToCart'' False,
         Log Warning ''Click attempt 3 failed for #addToCart: Node is detached from document'']\<rparr>)"
  by (simp add: clickElement_def clickElementFrom.simps clickAttempt_run waitForElementVisible_run
      detachedDriver_def calmDriver_def freshState_def emit_def tryCatch_def thenDo_def
      andThen_def logWarning_def modify_def throw_def delay_def showNat.simps digitChar_def)

lemma fieldless_form_run:
  "fillVehicleForm fieldlessDriver defaultConfig freshState =
     (Inr True,
      freshState\<lparr>world := 1, vehicleAdded := True, trace :=
        [Log Step ''Filling vehicle form'',
         waitEvent ''#licencePlateTxt'' True,
         waitEvent ''#licencePlateTxt'' True,
         Act (Focus ''#licencePlateTxt'') False,
         Log Failure ''Failed to fill input #licencePlateTxt: Node is not focusable'',
         waitEvent ''#stateSelect select'' True,
         Act (Select ''#stateSelect select'' ''BC'') False,
         Log Failure ''Failed to select option from #stateSelect select: Element is not a <select> element'',
         waitEvent ''#colourSelect select'' True,
         Act (Select ''#colourSelect select'' ''BLACK'') False,
         Log Failure ''Failed to select option from #colourSelect select: Element is not a <select> element'',
         waitEvent ''#makeModelSelect select'' True,
         Act (Select ''#makeModelSelect select'' ''Tesla'') False,
         Log Failure ''Failed to select option from #makeModelSelect select: Element is not a <select> element'',
         waitEvent ''#vehicleModelTxt'' True,
         Act (Focus ''#vehicleModelTxt'') False,
         Log Failure ''Failed to fill input #vehicleModelTxt: Node is not focusable'',
         waitEvent ''.themeBtn.button.button-round'' True,
         clickEvent ''.themeBtn.button.button-round'' True,
         Log Success ''Clicked element: .themeBtn.button.button-round'',
         Delay 2000,
         Log Completion ''Vehicle form filled and saved'']\<rparr>)"
  by (simp add: fillVehicleForm_def fillInput_def selectOption_def clickElement_def
      clickElementFrom.simps clickAttempt_run waitForElementVisible_run
      fieldlessDriver_def calmDriver_def freshState_def defaultConfig_def loadConfig_def
      configSelectors_def orElse_def emit_def tryCatch_def thenDo_def
      andThen_def logWarning_def logStep_def logSuccess_def logError_def logCompletion_def
      command_def return_def modify_def throw_def delay_def waitEvent_def clickEvent_def)



lemma saveClick_default:
  "saveClick defaultConfig = clickEvent ''.themeBtn.button.button-round'' True"
  by (simp add: saveClick_def defaultConfig_def loadConfig_def configSelectors_def)

lemma funpow_count: "((\<lambda>w. w + 1) ^^ j) (0::nat) = j"
  by (induction j) auto

lemma pollAfter_otpDriver: "pollAfter otpDriver freshState j = Inr (j < 3)"
  by (simp add: pollAfter_def otpStillVisible_def query_def otpDriver_def calmDriver_def
      freshState_def funpow_count)

lemma pollAfter_stuckDriver: "pollAfter stuckDriver s j = Inr True"
  by (simp add: pollAfter_def otpStillVisible_def query_def stuckDriver_def calmDriver_def)

lemma stuck_before_run: "\<exists>s1. beforeOtpWait stuckDriver freshState = (Inr (), s1)"
  by (simp add: beforeOtpWait_def findOtpInputs_def otpSelectors_def takeScreenshot_def
      stuckDriver_def calmDriver_def freshState_def emit_def tryCatch_def thenDo_def
      andThen_def logWarning_def logStep_def logSuccess_def logInfo_def command_def query_def
      getState_def return_def modify_def throw_def delay_def Let_def)

lemma stuck_submit_run: "fst (submitOtp stuckDriver defaultConfig s) = Inr True"
  by (simp add: submitOtp_def elementExists_def clickElement_def
      clickElementFrom.simps clickAttempt_run waitForElementVisible_run
      stuckDriver_def calmDriver_def emit_def tryCatch_def thenDo_def whenDo_def
      andThen_def logSuccess_def logCompletion_def query_def
      return_def modify_def delay_def)

lemma passCards_find:
  "find (cardMatches passCardsDriver halfDayConfig w) [0, 1] = Some 0"
  by (simp add: cardMatches_def passCardsDriver_def calmDriver_def halfDayConfig_def
      loadConfig_def orElse_def truthy_def startsWith_def)




lemma stuck_submit_ready:
  "queryOne stuckDriver (otpSubmitBtn (selectors defaultConfig)) w = Inr (Some 0)
   \<and> perform stuckDriver (WaitForSelector (otpSubmitBtn (selectors defaultConfig)) Visible 10000) w
       = (Inr (), w)
   \<and> queryOne stuckDriver (otpSubmitBtn (selectors defaultConfig)) w = Inr (Some 0)
   \<and> perform stuckDriver (Click (otpSubmitBtn (selectors defaultConfig))) w = (Inr (), w)"
  by (simp add: stuckDriver_def calmDriver_def)

lemma default_submit:
  "otpSubmitBtn (selectors defaultConfig) = ''.themeBtn.btn-disbled.button''"
  "delayBetweenActions defaultConfig = 100"
  by (simp_all add: defaultConfig_def loadConfig_def configSelectors_def orElseInt_def)

section \<open>The scheduler's guard\<close>

text \<open>
  Claim C8. A call of \<open>runScheduledJob\<close> that finds \<open>isRunning\<close> set returns normally
  and changes nothing but the log, to which it adds one warning naming the job: no bot is
  constructed, no browser command is issued, no time passes, nothing is queued, and
  \<open>isRunning\<close> keeps its value.
\<close>

theorem runScheduledJob_skips_when_running:
  assumes "isRunning s"
  shows "runScheduledJob d cfg jobName s =
           (Inr (), s\<lparr>trace := trace s @
              [Log Warning (''Bot is already running, skipping scheduled job: '' @ jobName)]\<rparr>)"
  using assms
  by (simp add: runScheduledJob_def andThen_def getState_def logWarning_def modify_def emit_def)

theorem runScheduledJob_skips_when_running_witness:
  "isRunning (freshState\<lparr>isRunning := True\<rparr>)
   \<and> runScheduledJob calmDriver defaultConfig ''morning'' (freshState\<lparr>isRunning := True\<rparr>) =
       (Inr (), freshState\<lparr>isRunning := True, trace :=
          [Log Warning ''Bot is already running, skipping scheduled job: morning'']\<rparr>)"
  using runScheduledJob_skips_when_running
          [of "freshState\<lparr>isRunning := True\<rparr>" calmDriver defaultConfig "''morning''"]
  by (simp add: freshState_def)

section \<open>The click primitive with retries\<close>

text \<open>
  Claim C9, as the code has it. A call of \<open>clickElement\<close> with \<open>maxRetries \<ge> 1\<close> (the
  callers use the default 3) adds to the trace a sequence of failed attempts, numbered from
  1, and then either a successful attempt or the last failed one. Every attempt starts with
  its own wait for the target to be visible; \<open>page.click\<close> comes directly after a wait that
  succeeded and nowhere else; every failed attempt ends with a warning giving its number,
  the target and the message of its error; a \<open>delay(1000)\<close> follows every failed attempt but
  the last. If the call returns, it returns \<open>true\<close> after fewer than \<open>maxRetries\<close> failed
  attempts, and the successful attempt is the last thing in the trace. If it raises, exactly
  \<open>maxRetries\<close> attempts were made and the error is the one of the last attempt, unchanged:
  \<open>Element not visible: <selector>\<close> from the wait, or whatever the browser raised for the
  click.
\<close>

theorem clickElement_retries:
  assumes "clickElement d sel maxRetries s = (r, s')" and "1 \<le> maxRetries"
  shows "\<exists>fs. list_all (fromBrowser d sel) fs
          \<and> ((r = Inr True \<and> length fs < maxRetries
               \<and> emitted s s' = retryTrace sel 1 fs @ clickedTrace sel)
            \<or> (\<exists>f. fromBrowser d sel f \<and> length fs + 1 = maxRetries
               \<and> r = Inl (errorOf sel f)
               \<and> emitted s s' = retryTrace sel 1 fs @ failedAttempt sel maxRetries f))"
proof -
  from assms have "clickElementFrom d sel maxRetries 1 s = (r, s')" "1 \<le> maxRetries"
    by (simp_all add: clickElement_def)
  from clickElementFrom_trace [OF this]
  obtain fs where fs: "list_all (fromBrowser d sel) fs"
    "(r = Inr True \<and> 1 + length fs \<le> maxRetries
               \<and> trace s' = trace s @ retryTrace sel 1 fs @ clickedTrace sel)
     \<or> (\<exists>f. fromBrowser d sel f \<and> 1 + length fs = maxRetries
               \<and> r = Inl (errorOf sel f)
               \<and> trace s' = trace s @ retryTrace sel 1 fs @ failedAttempt sel maxRetries f)"
    by blast
  then show ?thesis
    by (intro exI [of _ fs]) (auto simp: emitted_def)
qed

theorem clickElement_retries_witness:
  "(\<exists>fs. list_all (fromBrowser detachedDriver ''#addToCart'') fs
      \<and> ((fst (clickElement detachedDriver ''#addToCart'' 3 freshState) = Inr True
           \<and> length fs < 3
           \<and> emitted freshState (snd (clickElement detachedDriver ''#addToCart'' 3 freshState))
               = retryTrace ''#addToCart'' 1 fs @ clickedTrace ''#addToCart'')
        \<or> (\<exists>f. fromBrowser detachedDriver ''#addToCart'' f \<and> length fs + 1 = 3
           \<and> fst (clickElement detachedDriver ''#addToCart'' 3 freshState)
               = Inl (errorOf ''#addToCart'' f)
           \<and> emitted freshState (snd (clickElement detachedDriver ''#addToCart'' 3 freshState))
               = retryTrace ''#addToCart'' 1 fs @ failedAttempt ''#addToCart'' 3 f)))
   \<and> emitted freshState (snd (clickElement detachedDriver ''#addToCart'' 3 freshState))
       = retryTrace ''#addToCart'' 1
           [Rejected (Error ''Node is detached from document''),
            Rejected (Error ''Node is detached from document'')]
         @ failedAttempt ''#addToCart'' 3 (Rejected (Error ''Node is detached from document''))"
proof -
  let ?run = "clickElement detachedDriver ''#addToCart'' 3 freshState"
  have "?run = (fst ?run, snd ?run)" "(1::nat) \<le> 3" by simp_all
  from clickElement_retries [OF this]
  have "\<exists>fs. list_all (fromBrowser detachedDriver ''#addToCart'') fs
      \<and> ((fst ?run = Inr True \<and> length fs < 3
           \<and> emitted freshState (snd ?run) = retryTrace ''#addToCart'' 1 fs @ clickedTrace ''#addToCart'')
        \<or> (\<exists>f. fromBrowser detachedDriver ''#addToCart'' f \<and> length fs + 1 = 3
           \<and> fst ?run = Inl (errorOf ''#addToCart'' f)
           \<and> emitted freshState (snd ?run)
               = retryTrace ''#addToCart'' 1 fs @ failedAttempt ''#addToCart'' 3 f))" .
  moreover have "emitted freshState (snd ?run)
       = retryTrace ''#addToCart'' 1
           [Rejected (Error ''Node is detached from document''),
            Rejected (Error ''Node is detached from document'')]
         @ failedAttempt ''#addToCart'' 3 (Rejected (Error ''Node is detached from document''))"
    by (simp add: detached_click_run emitted_def trace_freshState showNat.simps digitChar_def)
  ultimately show ?thesis by (rule conjI)
qed

text \<open>
  The error raised after the last attempt need not name the target: when the browser
  rejects the three clicks, its own error comes out.
\<close>

theorem clickElement_error_without_target:
  "\<exists>s'. clickElement detachedDriver ''#addToCart'' 3 freshState =
          (Inl (Error ''Node is detached from document''), s')
        \<and> attemptsIn ''#addToCart'' (trace s') = 3
        \<and> \<not> stringIncludes ''Node is detached from document'' ''#addToCart''"
  by (simp add: detached_click_run attemptsIn_def waitEvent_def clickEvent_def startsWith_def)

section \<open>Filling the registration form\<close>



section \<open>The wait for the verification code\<close>

text \<open>
  Claim C1. The loop of \<open>handleOTPVerification\<close> tests whether the verification form is
  still shown, and lets \<open>checkInterval\<close> = 2000 ms pass between two tests;
  \<open>pollAfter d s k\<close> is the outcome of the test after \<open>k\<close> intervals. If the first test
  that finds the form gone is the one after \<open>k\<close> intervals, with \<open>k\<close> intervals shorter
  than \<open>maxWaitTime\<close> = 300000 ms, the loop ends there: it has waited exactly \<open>k\<close>
  intervals and the last thing it does is to log the completion. If every test within
  \<open>maxWaitTime\<close> finds the form, the loop ends having waited exactly \<open>maxWaitTime\<close>, and
  logs no completion. Whatever the tests give, also an error, the time waited is at most
  \<open>maxWaitTime + checkInterval\<close>.
\<close>

theorem otpWaitLoop_stops:
  "checkInterval = 2000 \<and> maxWaitTime = 300000
   \<and> (\<forall>k. (\<forall>j<k. pollAfter d s j = Inr True) \<and> pollAfter d s k = Inr False
            \<and> checkInterval * int k < maxWaitTime
        \<longrightarrow> fst (otpWaitLoop d 0 s) = Inr (checkInterval * int k)
            \<and> last (emitted s (snd (otpWaitLoop d 0 s))) = otpCompleted
            \<and> totalDelay (emitted s (snd (otpWaitLoop d 0 s))) = checkInterval * int k)
   \<and> ((\<forall>j. checkInterval * int j < maxWaitTime \<longrightarrow> pollAfter d s j = Inr True)
        \<longrightarrow> fst (otpWaitLoop d 0 s) = Inr maxWaitTime
            \<and> otpCompleted \<notin> set (emitted s (snd (otpWaitLoop d 0 s)))
            \<and> totalDelay (emitted s (snd (otpWaitLoop d 0 s))) = maxWaitTime)
   \<and> totalDelay (emitted s (snd (otpWaitLoop d 0 s))) \<le> maxWaitTime + checkInterval"
proof (intro conjI allI impI)
  show "checkInterval = 2000" by (simp add: checkInterval_def)
  show "maxWaitTime = 300000" by (simp add: maxWaitTime_def)
next
  fix k
  assume a: "(\<forall>j<k. pollAfter d s j = Inr True) \<and> pollAfter d s k = Inr False
            \<and> checkInterval * int k < maxWaitTime"
  then have "\<forall>j<k. pollAfter d s j = Inr True" "pollAfter d s k = Inr False"
    "0 + checkInterval * int k < maxWaitTime"
    by simp_all
  from otpWaitLoop_completes [OF this]
  obtain s' es where "otpWaitLoop d 0 s = (Inr (0 + checkInterval * int k), s')"
    "trace s' = trace s @ es @ [otpCompleted]" "totalDelay es = checkInterval * int k"
    by blast
  then show "fst (otpWaitLoop d 0 s) = Inr (checkInterval * int k)"
    "last (emitted s (snd (otpWaitLoop d 0 s))) = otpCompleted"
    "totalDelay (emitted s (snd (otpWaitLoop d 0 s))) = checkInterval * int k"
    by (simp_all add: emitted_def totalDelay_append otpCompleted_def)
next
  assume all: "\<forall>j. checkInterval * int j < maxWaitTime \<longrightarrow> pollAfter d s j = Inr True"
  have polls: "\<forall>j<150. pollAfter d s j = Inr True"
  proof (intro allI impI)
    fix j :: nat
    assume "j < 150"
    then have "checkInterval * int j < maxWaitTime"
      by (simp add: checkInterval_def maxWaitTime_def)
    with all show "pollAfter d s j = Inr True" by blast
  qed
  have "0 + checkInterval * int 150 = maxWaitTime"
    by (simp add: checkInterval_def maxWaitTime_def)
  from otpWaitLoop_times_out [OF polls this]
  obtain s' es where "otpWaitLoop d 0 s = (Inr maxWaitTime, s')"
    "trace s' = trace s @ es" "totalDelay es = checkInterval * int 150" "otpCompleted \<notin> set es"
    by blast
  then show "fst (otpWaitLoop d 0 s) = Inr maxWaitTime"
    "otpCompleted \<notin> set (emitted s (snd (otpWaitLoop d 0 s)))"
    "totalDelay (emitted s (snd (otpWaitLoop d 0 s))) = maxWaitTime"
    by (simp_all add: emitted_def checkInterval_def maxWaitTime_def)
next
  from otpWaitLoop_bounded [of 0 d s]
  show "totalDelay (emitted s (snd (otpWaitLoop d 0 s))) \<le> maxWaitTime + checkInterval"
    by (auto simp: emitted_def maxWaitTime_def)
qed

theorem otpWaitLoop_stops_witness:
  "fst (otpWaitLoop otpDriver 0 freshState) = Inr 6000
   \<and> totalDelay (emitted freshState (snd (otpWaitLoop otpDriver 0 freshState))) = 6000
   \<and> fst (otpWaitLoop stuckDriver 0 freshState) = Inr 300000
   \<and> totalDelay (emitted freshState (snd (otpWaitLoop stuckDriver 0 freshState))) = 300000"
proof -
  have cleared: "(\<forall>j<3. pollAfter otpDriver freshState j = Inr True)
      \<and> pollAfter otpDriver freshState 3 = Inr False \<and> checkInterval * int 3 < maxWaitTime"
    by (simp add: pollAfter_otpDriver checkInterval_def maxWaitTime_def)
  have stuck: "\<forall>j. checkInterval * int j < maxWaitTime \<longrightarrow> pollAfter stuckDriver freshState j = Inr True"
    by (simp add: pollAfter_stuckDriver)
  from otpWaitLoop_stops [of otpDriver freshState] cleared
  have "fst (otpWaitLoop otpDriver 0 freshState) = Inr (checkInterval * int 3)
      \<and> totalDelay (emitted freshState (snd (otpWaitLoop otpDriver 0 freshState))) = checkInterval * int 3"
    by blast
  moreover from otpWaitLoop_stops [of stuckDriver freshState] stuck
  have "fst (otpWaitLoop stuckDriver 0 freshState) = Inr maxWaitTime
      \<and> totalDelay (emitted freshState (snd (otpWaitLoop stuckDriver 0 freshState))) = maxWaitTime"
    by blast
  ultimately show ?thesis
    by (simp add: checkInterval_def maxWaitTime_def)
qed

section \<open>A timeout of the wait is not an error\<close>

text \<open>
  Claim C7. Suppose the statements of \<open>handleOTPVerification\<close> before the loop have
  succeeded and every test of the loop within \<open>maxWaitTime\<close> finds the verification form
  still shown. Then the loop returns normally with \<open>maxWaitTime\<close>, the timeout is logged
  (a warning and a line of information), and the method goes on with the submission of the
  code, under its error handler. If the configured submit button is on the page and the
  click on it goes through, the trace continues with the wait for that button, the click and
  the two success messages, and the method returns \<open>true\<close>. If none of the four submit
  selectors finds an element, the method raises \<open>Could not submit OTP\<close>: the error of the
  submission, not one for the timeout.
\<close>

theorem otp_timeout_is_not_fatal:
  assumes "beforeOtpWait d s = (Inr (), s1)"
    and "\<forall>j. checkInterval * int j < maxWaitTime \<longrightarrow> pollAfter d s1 j = Inr True"
  shows "\<exists>s2. otpWaitLoop d 0 s1 = (Inr maxWaitTime, s2)
           \<and> world s2 = timedOutWorld d (world s1)
           \<and> handleOTPVerification d cfg s =
               tryCatch (submitOtp d cfg)
                 (\<lambda>error. thenDo (logError ''Failed to handle OTP verification'' (Some error))
                                  (throw error))
                 (timeoutLogged s2)
           \<and> (\<forall>b w3 x w4.
                  queryOne d (otpSubmitBtn (selectors cfg)) (world s2) = Inr (Some b)
                  \<and> perform d (WaitForSelector (otpSubmitBtn (selectors cfg)) Visible 10000)
                        (world s2) = (Inr (), w3)
                  \<and> queryOne d (otpSubmitBtn (selectors cfg)) w3 = Inr x
                  \<and> perform d (Click (otpSubmitBtn (selectors cfg))) w3 = (Inr (), w4)
                \<longrightarrow> handleOTPVerification d cfg s =
                      (Inr True,
                       s2\<lparr>world := elapse d (delayBetweenActions cfg) w4,
                          trace := trace s2 @
                            [Log Warning ''Timeout waiting for OTP verification'',
                             Log Info ''Please complete the verification manually and the bot will continue'',
                             waitEvent (otpSubmitBtn (selectors cfg)) True,
                             clickEvent (otpSubmitBtn (selectors cfg)) True,
                             Log Success (''Clicked element: '' @ otpSubmitBtn (selectors cfg)),
                             Log Success (''OTP submitted using selector: ''
                                          @ otpSubmitBtn (selectors cfg)),
                             Delay (delayBetweenActions cfg),
                             Log Completion ''OTP verification completed'']\<rparr>))
           \<and> ((\<forall>sel\<in>set (submitSelectors cfg). queryOne d sel (world s2) = Inr None)
                \<longrightarrow> handleOTPVerification d cfg s =
                      (Inl (Error ''Could not submit OTP''),
                       s2\<lparr>trace := trace s2 @
                            [Log Warning ''Timeout waiting for OTP verification'',
                             Log Info ''Please complete the verification manually and the bot will continue'',
                             Log Failure ''Failed to handle OTP verification: Could not submit OTP'']\<rparr>))"
proof -
  have polls: "\<forall>j<150. pollAfter d s1 j = Inr True"
  proof (intro allI impI)
    fix j :: nat
    assume "j < 150"
    then have "checkInterval * int j < maxWaitTime"
      by (simp add: checkInterval_def maxWaitTime_def)
    with assms(2) show "pollAfter d s1 j = Inr True" by blast
  qed
  have len: "0 + checkInterval * int 150 = maxWaitTime"
    by (simp add: checkInterval_def maxWaitTime_def)
  from otpWaitLoop_times_out [OF polls len]
  obtain s2 where loop: "otpWaitLoop d 0 s1 = (Inr maxWaitTime, s2)"
    by blast
  from otpWaitLoop_world [OF polls len] loop
  have w2: "world s2 = timedOutWorld d (world s1)"
    by (simp add: timedOutWorld_def checkInterval_def maxWaitTime_def)
  have run: "handleOTPVerification d cfg s =
      tryCatch (submitOtp d cfg)
        (\<lambda>error. thenDo (logError ''Failed to handle OTP verification'' (Some error))
                         (throw error))
        (timeoutLogged s2)"
    using assms(1) loop afterOtpWait_timeout [of maxWaitTime d cfg s2]
    by (simp add: handleOTPVerification_def tryCatch_def thenDo_def andThen_def)
  have first: "handleOTPVerification d cfg s =
                      (Inr True,
                       s2\<lparr>world := elapse d (delayBetweenActions cfg) w4,
                          trace := trace s2 @
                            [Log Warning ''Timeout waiting for OTP verification'',
                             Log Info ''Please complete the verification manually and the bot will continue'',
                             waitEvent (otpSubmitBtn (selectors cfg)) True,
                             clickEvent (otpSubmitBtn (selectors cfg)) True,
                             Log Success (''Clicked element: '' @ otpSubmitBtn (selectors cfg)),
                             Log Success (''OTP submitted using selector: ''
                                          @ otpSubmitBtn (selectors cfg)),
                             Delay (delayBetweenActions cfg),
                             Log Completion ''OTP verification completed'']\<rparr>)"
    if "queryOne d (otpSubmitBtn (selectors cfg)) (world s2) = Inr (Some b)
                  \<and> perform d (WaitForSelector (otpSubmitBtn (selectors cfg)) Visible 10000)
                        (world s2) = (Inr (), w3)
                  \<and> queryOne d (otpSubmitBtn (selectors cfg)) w3 = Inr x
                  \<and> perform d (Click (otpSubmitBtn (selectors cfg))) w3 = (Inr (), w4)"
    for b w3 x w4
  proof -
    from that have "submitOtp d cfg (timeoutLogged s2) =
     (Inr True,
      (timeoutLogged s2)\<lparr>world := elapse d (delayBetweenActions cfg) w4,
        trace := trace (timeoutLogged s2) @
          [waitEvent (otpSubmitBtn (selectors cfg)) True,
           clickEvent (otpSubmitBtn (selectors cfg)) True,
           Log Success (''Clicked element: '' @ otpSubmitBtn (selectors cfg)),
           Log Success (''OTP submitted using selector: '' @ otpSubmitBtn (selectors cfg)),
           Delay (delayBetweenActions cfg),
           Log Completion ''OTP verification completed'']\<rparr>)"
      by (intro submitOtp_first [where b = b and x = x and ?w3.0 = w3]) (simp_all add: timeoutLogged_def)
    then show ?thesis
      unfolding run by (simp add: tryCatch_def timeoutLogged_def)
  qed
  have none: "handleOTPVerification d cfg s =
                      (Inl (Error ''Could not submit OTP''),
                       s2\<lparr>trace := trace s2 @
                            [Log Warning ''Timeout waiting for OTP verification'',
                             Log Info ''Please complete the verification manually and the bot will continue'',
                             Log Failure ''Failed to handle OTP verification: Could not submit OTP'']\<rparr>)"
    if "\<forall>sel\<in>set (submitSelectors cfg). queryOne d sel (world s2) = Inr None"
  proof -
    from that have "submitOtp d cfg (timeoutLogged s2) =
        (Inl (Error ''Could not submit OTP''), timeoutLogged s2)"
      by (intro submitOtp_none) (simp add: timeoutLogged_def)
    then show ?thesis
      unfolding run
      by (simp add: tryCatch_def timeoutLogged_def thenDo_def andThen_def logError_def
          modify_def throw_def emit_def)
  qed
  from loop w2 run first none show ?thesis by blast
qed

theorem otp_timeout_is_not_fatal_witness:
  "\<exists>s2. handleOTPVerification stuckDriver defaultConfig freshState =
      (Inr True,
       s2\<lparr>world := Suc (world s2),
          trace := trace s2 @
            [Log Warning ''Timeout waiting for OTP verification'',
             Log Info ''Please complete the verification manually and the bot will continue'',
             waitEvent ''.themeBtn.btn-disbled.button'' True,
             clickEvent ''.themeBtn.btn-disbled.button'' True,
             Log Success ''Clicked element: .themeBtn.btn-disbled.button'',
             Log Success ''OTP submitted using selector: .themeBtn.btn-disbled.button'',
             Delay 100,
             Log Completion ''OTP verification completed'']\<rparr>)"
proof -
  obtain s1 where before: "beforeOtpWait stuckDriver freshState = (Inr (), s1)"
    using stuck_before_run by blast
  have polls: "\<forall>j. checkInterval * int j < maxWaitTime \<longrightarrow> pollAfter stuckDriver s1 j = Inr True"
    by (simp add: pollAfter_stuckDriver)
  from otp_timeout_is_not_fatal [OF before polls, of defaultConfig]
  obtain s2 where imp: "\<forall>b w3 x w4.
                  queryOne stuckDriver (otpSubmitBtn (selectors defaultConfig)) (world s2) = Inr (Some b)
                  \<and> perform stuckDriver (WaitForSelector (otpSubmitBtn (selectors defaultConfig)) Visible 10000)
                        (world s2) = (Inr (), w3)
                  \<and> queryOne stuckDriver (otpSubmitBtn (selectors defaultConfig)) w3 = Inr x
                  \<and> perform stuckDriver (Click (otpSubmitBtn (selectors defaultConfig))) w3 = (Inr (), w4)
                \<longrightarrow> handleOTPVerification stuckDriver defaultConfig freshState =
                      (Inr True,
                       s2\<lparr>world := elapse stuckDriver (delayBetweenActions defaultConfig) w4,
                          trace := trace s2 @
                            [Log Warning ''Timeout waiting for OTP verification'',
                             Log Info ''Please complete the verification manually and the bot will continue'',
                             waitEvent (otpSubmitBtn (selectors defaultConfig)) True,
                             clickEvent (otpSubmitBtn (selectors defaultConfig)) True,
                             Log Success (''Clicked element: '' @ otpSubmitBtn (selectors defaultConfig)),
                             Log Success (''OTP submitted using selector: ''
                                          @ otpSubmitBtn (selectors defaultConfig)),
                             Delay (delayBetweenActions defaultConfig),
                             Log Completion ''OTP verification completed'']\<rparr>)"
    by blast
  from imp [rule_format, OF stuck_submit_ready [of "world s2"]]
  show ?thesis
    by (intro exI [of _ s2]) (simp add: default_submit stuckDriver_def calmDriver_def)
qed

section \<open>The choice of the pass\<close>

text \<open>
  Claim C6. \<open>selectPassType\<close> reads the pass cards once the page has had 2000 ms to load,
  and goes through them in order; \<open>cardMatches\<close> is its test, the literal substrings
  \<open>All Day Pass\<close> / \<open>All-day Pass\<close> for \<open>all_day\<close> and \<open>Half Day Pass\<close> /
  \<open>Half-day Pass\<close> for \<open>half_day\<close>. When the click goes through, the stage returns
  \<open>true\<close> and its trace is: the click on the first card that matches, logged as a success;
  or, when no card matches, the click on the first card, logged as a warning. The example is
  the one of the specification: cards reading \<open>Half-day Pass\<close> and \<open>All Day Pass\<close>, and
  \<open>half_day\<close> requested.
\<close>

theorem selectPassType_policy:
  assumes "queryAll d ''.gridCard, .cardRow .gridCard'' (elapse d 2000 (world s)) = Inr cards"
  shows "(\<forall>c w2. find (cardMatches d cfg (elapse d 2000 (world s))) cards = Some c
             \<and> perform d (ElemClick c 1) (elapse d 2000 (world s)) = (Inr (), w2)
           \<longrightarrow> (\<exists>s'. selectPassType d cfg s = (Inr True, s')
                  \<and> emitted s s' =
                      [Log Step (''Selecting pass type: '' @ passType cfg), Delay 2000,
                       Act (ElemClick c 1) True,
                       Log Success (''Selected '' @ passType cfg @ '' pass''),
                       Delay (delayBetweenActions cfg), Log Completion ''Pass type selected'']))
       \<and> (\<forall>c rest w2. find (cardMatches d cfg (elapse d 2000 (world s))) cards = None
             \<and> cards = c # rest
             \<and> perform d (ElemClick c 1) (elapse d 2000 (world s)) = (Inr (), w2)
           \<longrightarrow> (\<exists>s'. selectPassType d cfg s = (Inr True, s')
                  \<and> emitted s s' =
                      [Log Step (''Selecting pass type: '' @ passType cfg), Delay 2000,
                       Act (ElemClick c 1) True,
                       Log Warning ''Could not find specific pass type, selected first available'',
                       Delay (delayBetweenActions cfg), Log Completion ''Pass type selected'']))"
proof (intro conjI allI impI)
  let ?s1 = "s\<lparr>world := elapse d 2000 (world s),
          trace := trace s @ [Log Step (''Selecting pass type: '' @ passType cfg), Delay 2000]\<rparr>"
  fix c w2
  assume a: "find (cardMatches d cfg (elapse d 2000 (world s))) cards = Some c
             \<and> perform d (ElemClick c 1) (elapse d 2000 (world s)) = (Inr (), w2)"
  then have "passCardLoop d cfg cards ?s1 =
     (Inr True, emit (Log Success (''Selected '' @ passType cfg @ '' pass''))
                  (emit (Act (ElemClick c 1) True) (?s1\<lparr>world := w2\<rparr>)))"
    by (intro passCardLoop_some) simp_all
  then show "\<exists>s'. selectPassType d cfg s = (Inr True, s')
                  \<and> emitted s s' =
                      [Log Step (''Selecting pass type: '' @ passType cfg), Delay 2000,
                       Act (ElemClick c 1) True,
                       Log Success (''Selected '' @ passType cfg @ '' pass''),
                       Delay (delayBetweenActions cfg), Log Completion ''Pass type selected'']"
    unfolding selectPassType_start [OF assms]
    by (simp add: tryCatch_def andThen_def thenDo_def whenDo_def return_def delay_def
        logCompletion_def modify_def emit_def emitted_def)
next
  let ?s1 = "s\<lparr>world := elapse d 2000 (world s),
          trace := trace s @ [Log Step (''Selecting pass type: '' @ passType cfg), Delay 2000]\<rparr>"
  fix c rest w2
  assume a: "find (cardMatches d cfg (elapse d 2000 (world s))) cards = None
             \<and> cards = c # rest
             \<and> perform d (ElemClick c 1) (elapse d 2000 (world s)) = (Inr (), w2)"
  from a [THEN conjunct1] have "passCardLoop d cfg cards ?s1 = (Inr False, ?s1)"
    by (intro passCardLoop_none) simp
  with a show "\<exists>s'. selectPassType d cfg s = (Inr True, s')
                  \<and> emitted s s' =
                      [Log Step (''Selecting pass type: '' @ passType cfg), Delay 2000,
                       Act (ElemClick c 1) True,
                       Log Warning ''Could not find specific pass type, selected first available'',
                       Delay (delayBetweenActions cfg), Log Completion ''Pass type selected'']"
    unfolding selectPassType_start [OF assms]
    by (simp add: tryCatch_def andThen_def thenDo_def whenDo_def return_def delay_def
        logCompletion_def logWarning_def command_def modify_def emit_def emitted_def)
qed

theorem selectPassType_policy_witness:
  "\<exists>s'. selectPassType passCardsDriver halfDayConfig freshState = (Inr True, s')
      \<and> emitted freshState s' =
            [Log Step ''Selecting pass type: half_day'', Delay 2000,
             Act (ElemClick 0 1) True, Log Success ''Selected half_day pass'',
             Delay 100, Log Completion ''Pass type selected'']"
proof -
  have cards: "queryAll passCardsDriver ''.gridCard, .cardRow .gridCard''
      (elapse passCardsDriver 2000 (world freshState)) = Inr [0, 1]"
    by (simp add: passCardsDriver_def calmDriver_def)
  have click: "perform passCardsDriver (ElemClick 0 1) (elapse passCardsDriver 2000 (world freshState))
      = (Inr (), 1)"
    by (simp add: passCardsDriver_def calmDriver_def freshState_def)
  have cfg: "passType halfDayConfig = ''half_day''" "delayBetweenActions halfDayConfig = 100"
    by (simp_all add: halfDayConfig_def loadConfig_def orElse_def orElseInt_def truthy_def)
  from selectPassType_policy [OF cards, of halfDayConfig] passCards_find click
  show ?thesis
    by (simp add: cfg)
qed

end
